theory Spec2Isabelle
  imports Complex_Main
begin

section \<open>Python values, exceptions and string primitives\<close>

text \<open>
  The pipeline passes loosely typed dictionaries around (\<^verbatim>\<open>Dict[str, Any]\<close>), some of
  them decoded from the JSON answer of an external service. They are modelled as
  association lists over a universe of Python values. A \<^verbatim>\<open>float\<close> is modelled by the
  rational number it denotes (every finite double is one, and the comparisons the code
  performs agree with the comparisons of these rationals); NaN and the infinities
  are outside the model. A float literal of the source denotes the double nearest to
  it, which for 0.3, 0.6 and 0.7 is not the decimal fraction (see \<open>float_0_7\<close> below).
  A \<^verbatim>\<open>str\<close> is a list of 8-bit characters.
\<close>

datatype pyval =
    PNone
  | PBool bool
  | PInt int
  | PFloat rat
  | PStr string
  | PList "pyval list"
  | PDict "(string \<times> pyval) list"

type_synonym pydict = "(string \<times> pyval) list"

text \<open>The exceptions the modelled code can raise; \<open>StorageError\<close> is any exception of
  the storage layer on a write, \<open>DetachedInstanceError\<close> the ORM's exception on reading an
  object whose session is closed.\<close>

datatype error =
    AttributeError | TypeError | ValueError | OverflowError
  | StorageError | DetachedInstanceError

definition then_do :: "error + 'a \<Rightarrow> ('a \<Rightarrow> error + 'b) \<Rightarrow> error + 'b" where
  "then_do m f = (case m of Inl e \<Rightarrow> Inl e | Inr x \<Rightarrow> f x)"

text \<open>Truth value of a Python object, as tested by \<^verbatim>\<open>if x\<close>, \<^verbatim>\<open>not x\<close>, \<^verbatim>\<open>x or y\<close>.\<close>

fun truthy :: "pyval \<Rightarrow> bool" where
  "truthy PNone = False"
| "truthy (PBool b) = b"
| "truthy (PInt i) = (i \<noteq> 0)"
| "truthy (PFloat r) = (r \<noteq> 0)"
| "truthy (PStr s) = (s \<noteq> [])"
| "truthy (PList xs) = (xs \<noteq> [])"
| "truthy (PDict kvs) = (kvs \<noteq> [])"

definition py_or :: "pyval \<Rightarrow> pyval \<Rightarrow> pyval" where
  "py_or a b = (if truthy a then a else b)"

text \<open>\<^verbatim>\<open>d.get(k, default)\<close> on a dictionary, and on an arbitrary object (only a
  dictionary has the method).\<close>

definition dict_get :: "pydict \<Rightarrow> string \<Rightarrow> pyval \<Rightarrow> pyval" where
  "dict_get d k dflt = (case map_of d k of None \<Rightarrow> dflt | Some v \<Rightarrow> v)"

definition py_get :: "pyval \<Rightarrow> string \<Rightarrow> pyval \<Rightarrow> error + pyval" where
  "py_get d k dflt = (case d of PDict kvs \<Rightarrow> Inr (dict_get kvs k dflt) | _ \<Rightarrow> Inl AttributeError)"


text \<open>Numbers: \<^verbatim>\<open>bool\<close> is a subclass of \<^verbatim>\<open>int\<close>, and \<^verbatim>\<open>int\<close> mixes with
  \<^verbatim>\<open>float\<close> in comparisons and sums. Ordering a number against anything that is not
  a number raises \<^verbatim>\<open>TypeError\<close>.\<close>

fun py_int :: "pyval \<Rightarrow> int option" where
  "py_int (PBool b) = Some (if b then 1 else 0)"
| "py_int (PInt i) = Some i"
| "py_int _ = None"

fun py_num :: "pyval \<Rightarrow> rat option" where
  "py_num (PBool b) = Some (if b then 1 else 0)"
| "py_num (PInt i) = Some (of_int i)"
| "py_num (PFloat r) = Some r"
| "py_num _ = None"

definition num_ge :: "pyval \<Rightarrow> rat \<Rightarrow> error + bool" where
  "num_ge v c = (case py_num v of None \<Rightarrow> Inl TypeError | Some x \<Rightarrow> Inr (c \<le> x))"

definition num_gt :: "pyval \<Rightarrow> rat \<Rightarrow> error + bool" where
  "num_gt v c = (case py_num v of None \<Rightarrow> Inl TypeError | Some x \<Rightarrow> Inr (c < x))"

definition num_lt :: "pyval \<Rightarrow> rat \<Rightarrow> error + bool" where
  "num_lt v c = (case py_num v of None \<Rightarrow> Inl TypeError | Some x \<Rightarrow> Inr (x < c))"

fun py_add :: "pyval \<Rightarrow> pyval \<Rightarrow> error + pyval" where
  "py_add (PStr a) (PStr b) = Inr (PStr (a @ b))"
| "py_add (PList a) (PList b) = Inr (PList (a @ b))"
| "py_add a b =
     (case (py_int a, py_int b) of
        (Some i, Some j) \<Rightarrow> Inr (PInt (i + j))
      | _ \<Rightarrow> (case (py_num a, py_num b) of
                (Some x, Some y) \<Rightarrow> Inr (PFloat (x + y))
              | _ \<Rightarrow> Inl TypeError))"

text \<open>The doubles that the literals \<^verbatim>\<open>0.3\<close>, \<^verbatim>\<open>0.6\<close> and \<^verbatim>\<open>0.7\<close> of the source
  denote: each is the multiple of its unit in the last place that lies nearest to the
  decimal fraction, and each lies below it. The other float literals of the modelled
  code (0.0, 0.5, 1.0, 2.0, 5.0, 100.0) are exact.\<close>

definition float_0_3 :: rat where
  "float_0_3 = 5404319552844595 / 18014398509481984"

definition float_0_6 :: rat where
  "float_0_6 = 5404319552844595 / 9007199254740992"

definition float_0_7 :: rat where
  "float_0_7 = 3152519739159347 / 4503599627370496"

text \<open>\<^verbatim>\<open>float(i)\<close> for an integer: the nearest double, ties to the even mantissa of 53
  bits; \<^verbatim>\<open>OverflowError\<close> when that would reach \<open>2 ^ 1024\<close>.\<close>

function bit_length :: "nat \<Rightarrow> nat" where
  "bit_length n = (if n = 0 then 0 else Suc (bit_length (n div 2)))"
  by pat_completeness auto
termination
  by (relation "measure id") auto

declare bit_length.simps [simp del]

definition int_to_double :: "int \<Rightarrow> int" where
  "int_to_double i =
     (let a = \<bar>i\<bar>; n = bit_length (nat a)
      in if n \<le> 53 then i
         else (let shift = n - 53; q = a div 2 ^ shift; r = a mod 2 ^ shift;
                   half = 2 ^ (shift - 1);
                   m = (if half < r \<or> (r = half \<and> odd q) then q + 1 else q)
               in sgn i * m * 2 ^ shift))"



text \<open>\<^verbatim>\<open>len(x)\<close>.\<close>

fun py_len :: "pyval \<Rightarrow> error + nat" where
  "py_len (PStr s) = Inr (length s)"
| "py_len (PList xs) = Inr (length xs)"
| "py_len (PDict kvs) = Inr (length kvs)"
| "py_len _ = Inl TypeError"

text \<open>Short-circuit \<^verbatim>\<open>a or b\<close> and \<^verbatim>\<open>a and b\<close> of two tests that may raise.\<close>

definition either :: "error + bool \<Rightarrow> error + bool \<Rightarrow> error + bool" where
  "either a b = then_do a (\<lambda>x. if x then Inr True else b)"

definition both :: "error + bool \<Rightarrow> error + bool \<Rightarrow> error + bool" where
  "both a b = then_do a (\<lambda>x. if x then b else Inr False)"

text \<open>\<^verbatim>\<open>x[:n]\<close>.\<close>

fun py_take :: "nat \<Rightarrow> pyval \<Rightarrow> error + pyval" where
  "py_take n (PStr s) = Inr (PStr (take n s))"
| "py_take n (PList xs) = Inr (PList (take n xs))"
| "py_take n _ = Inl TypeError"

subsection \<open>Strings\<close>

text \<open>\<^verbatim>\<open>s.lower()\<close> on the ASCII letters (the keyword tables and the literals the code
  compares with are ASCII).\<close>

definition lower_char :: "char \<Rightarrow> char" where
  "lower_char c =
     (case map_of (zip ''ABCDEFGHIJKLMNOPQRSTUVWXYZ'' ''abcdefghijklmnopqrstuvwxyz'') c of
        None \<Rightarrow> c | Some d \<Rightarrow> d)"

definition lower :: "string \<Rightarrow> string" where
  "lower s = map lower_char s"

definition py_lower :: "pyval \<Rightarrow> error + string" where
  "py_lower v = (case v of PStr s \<Rightarrow> Inr (lower s) | _ \<Rightarrow> Inl AttributeError)"

definition starts_with :: "string \<Rightarrow> string \<Rightarrow> bool" where
  "starts_with s p = (take (length p) s = p)"

definition ends_with :: "string \<Rightarrow> string \<Rightarrow> bool" where
  "ends_with s p = starts_with (rev s) (rev p)"

text \<open>\<^verbatim>\<open>sub in s\<close> for strings.\<close>

fun contains :: "string \<Rightarrow> string \<Rightarrow> bool" where
  "contains [] sub = (sub = [])"
| "contains (c # cs) sub = (starts_with (c # cs) sub \<or> contains cs sub)"

text \<open>\<^verbatim>\<open>k in x\<close> for a string \<open>k\<close>: a key of a dictionary, an element of a list, a
  substring of a string.\<close>

fun py_in :: "string \<Rightarrow> pyval \<Rightarrow> error + bool" where
  "py_in k (PDict kvs) = Inr (map_of kvs k \<noteq> None)"
| "py_in k (PList xs) = Inr (PStr k \<in> set xs)"
| "py_in k (PStr s) = Inr (contains s k)"
| "py_in k _ = Inl TypeError"

text \<open>\<^verbatim>\<open>s.split(sep)\<close> for a non-empty separator: the occurrences of \<open>sep\<close> are
  found from the left and do not overlap. The second argument is the piece read so far.
  (Python raises \<^verbatim>\<open>ValueError\<close> on an empty separator; the code only splits on the
  literals \<^verbatim>\<open>'. '\<close> and \<^verbatim>\<open>'\n'\<close>.)\<close>

function split_from :: "string \<Rightarrow> string \<Rightarrow> string \<Rightarrow> string list" where
  "split_from sep acc [] = [acc]"
| "split_from sep acc (c # cs) =
     (if sep \<noteq> [] \<and> starts_with (c # cs) sep
      then acc # split_from sep [] (drop (length sep) (c # cs))
      else split_from sep (acc @ [c]) cs)"
  by pat_completeness auto
termination
  by (relation "measure (\<lambda>(sep, acc, s). length s)") auto

definition py_split :: "string \<Rightarrow> string \<Rightarrow> string list" where
  "py_split s sep = split_from sep [] s"

definition py_split_val :: "pyval \<Rightarrow> string \<Rightarrow> error + string list" where
  "py_split_val v sep = (case v of PStr s \<Rightarrow> Inr (py_split s sep) | _ \<Rightarrow> Inl AttributeError)"

text \<open>\<^verbatim>\<open>sep.join(pieces)\<close>.\<close>

fun py_join :: "string \<Rightarrow> string list \<Rightarrow> string" where
  "py_join sep [] = []"
| "py_join sep [p] = p"
| "py_join sep (p # q # ps) = p @ sep @ py_join sep (q # ps)"

text \<open>\<^verbatim>\<open>s.strip()\<close>: the characters Python's \<^verbatim>\<open>str.isspace\<close> accepts below 256.\<close>

definition is_space :: "char \<Rightarrow> bool" where
  "is_space c = (let n = (of_char c :: nat) in
     (9 \<le> n \<and> n \<le> 13) \<or> (28 \<le> n \<and> n \<le> 32) \<or> n = 133 \<or> n = 160)"

definition strip :: "string \<Rightarrow> string" where
  "strip s = rev (dropWhile is_space (rev (dropWhile is_space s)))"

definition py_strip :: "pyval \<Rightarrow> error + string" where
  "py_strip v = (case v of PStr s \<Rightarrow> Inr (strip s) | _ \<Rightarrow> Inl AttributeError)"

text \<open>A nullable text column: \<^verbatim>\<open>None\<close> or a string; \<^verbatim>\<open>not x\<close> holds for \<^verbatim>\<open>None\<close> and
  for the empty string.\<close>

definition text_val :: "string option \<Rightarrow> pyval" where
  "text_val t = (case t of None \<Rightarrow> PNone | Some s \<Rightarrow> PStr s)"

definition has_text :: "string option \<Rightarrow> bool" where
  "has_text t = truthy (text_val t)"

text \<open>\<^verbatim>\<open>t or default\<close> for a nullable text column and a string literal.\<close>

definition text_or :: "string option \<Rightarrow> string \<Rightarrow> string" where
  "text_or t dflt = (case t of None \<Rightarrow> dflt | Some s \<Rightarrow> if s = [] then dflt else s)"

section \<open>Diff engine\<close>

text \<open>A row of the \<^verbatim>\<open>snapshots\<close> table. The JSON column \<^verbatim>\<open>metadata\<close> holds a Python
  value, \<open>PNone\<close> when it is NULL.\<close>

record snapshot =
  snap_id :: nat
  snap_asset_id :: nat
  content_hash :: string
  content_text :: "string option"
  content_html :: "string option"
  metadata_json :: pyval
  crawl_timestamp :: int
  http_status :: "int option"

text \<open>
  What the diff engine takes from outside this repository's decision logic:
  \<^item> \<open>differ_compare\<close>: \<^verbatim>\<open>list(difflib.Differ().compare(a, b))\<close>;
  \<^item> \<open>ratio_pct\<close>: \<^verbatim>\<open>round((1.0 - difflib.SequenceMatcher(None, a, b).ratio()) * 100.0, 2)\<close>;
  \<^item> \<open>compare_structured\<close>: \<^verbatim>\<open>_compare_structured_data\<close>, the per-category comparison of
    two attribute bags, whose result lists are built from Python sets in an order the
    language leaves open. It returns \<open>PNone\<close> or a dictionary, or raises.
  Every statement below holds for all three, whatever they compute.
\<close>

record difflib =
  differ_compare :: "string list \<Rightarrow> string list \<Rightarrow> string list"
  ratio_pct :: "string \<Rightarrow> string \<Rightarrow> rat"
  compare_structured :: "pyval \<Rightarrow> pyval \<Rightarrow> string \<Rightarrow> error + pyval"

definition count_prefix :: "string \<Rightarrow> string list \<Rightarrow> int" where
  "count_prefix p ls = int (length (filter (\<lambda>line. starts_with line p) ls))"

definition text_diff :: "difflib \<Rightarrow> string \<Rightarrow> string \<Rightarrow> pydict" where
  "text_diff lib text_before text_after =
     (let lines_before = py_split text_before [CHR 0x0A];
          lines_after = py_split text_after [CHR 0x0A];
          diff = differ_compare lib lines_before lines_after;
          added = count_prefix ''+ '' diff;
          removed = count_prefix ''- '' diff;
          modified = count_prefix ''? '' diff;
          added_lines = map (drop 2)
            (filter (\<lambda>line. starts_with line ''+ '' \<and> \<not> starts_with line ''+++'') diff);
          removed_lines = map (drop 2)
            (filter (\<lambda>line. starts_with line ''- '' \<and> \<not> starts_with line ''---'') diff)
      in [(''added_count'', PInt added),
          (''removed_count'', PInt removed),
          (''modified_count'', PInt modified),
          (''added_lines'', PList (map PStr (take 20 added_lines))),
          (''removed_lines'', PList (map PStr (take 20 removed_lines))),
          (''total_lines_before'', PInt (int (length lines_before))),
          (''total_lines_after'', PInt (int (length lines_after)))])"

definition calculate_change_percentage :: "difflib \<Rightarrow> string \<Rightarrow> string \<Rightarrow> rat" where
  "calculate_change_percentage lib text_before text_after =
     (if text_before = [] then (if text_after \<noteq> [] then 100 else 0)
      else if text_after = [] then 100
      else ratio_pct lib text_before text_after)"

text \<open>\<^verbatim>\<open>compare_snapshots\<close>. The result is \<open>Inr None\<close> for Python's \<^verbatim>\<open>None\<close>. The asset
  type, read in the source through \<^verbatim>\<open>snapshot_before.asset.asset_type\<close>, is an argument.\<close>

definition compare_snapshots ::
  "difflib \<Rightarrow> string \<Rightarrow> snapshot \<Rightarrow> snapshot \<Rightarrow> error + pydict option" where
  "compare_snapshots lib asset_type snapshot_before snapshot_after =
     (if content_hash snapshot_before = content_hash snapshot_after then Inr None
      else if \<not> has_text (content_text snapshot_before) \<or> \<not> has_text (content_text snapshot_after)
      then Inr None
      else
        (case (content_text snapshot_before, content_text snapshot_after) of
           (Some tb, Some ta) \<Rightarrow>
             (let diff_result = text_diff lib tb ta
              in then_do
                   (if truthy (metadata_json snapshot_before) \<and> truthy (metadata_json snapshot_after)
                    then compare_structured lib (metadata_json snapshot_before)
                           (metadata_json snapshot_after) asset_type
                    else Inr PNone)
                   (\<lambda>structured_diff. Inr (Some
                      [(''before_content'', PStr tb),
                       (''after_content'', PStr ta),
                       (''text_diff'', PDict diff_result),
                       (''structured_diff'', structured_diff),
                       (''content_change_percentage'',
                          PFloat (calculate_change_percentage lib tb ta))])))
         | _ \<Rightarrow> Inr None))"

text \<open>\<^verbatim>\<open>is_significant_change(change_data, threshold)\<close>; the default threshold is 5.0.\<close>

definition is_significant_change :: "pydict \<Rightarrow> rat \<Rightarrow> error + bool" where
  "is_significant_change change_data threshold =
     (if truthy (dict_get change_data ''structured_diff'' PNone) then Inr True
      else then_do
        (num_ge (dict_get change_data ''content_change_percentage'' (PFloat 0)) threshold)
        (\<lambda>above. if above then Inr True
           else
             (let text_diff = dict_get change_data ''text_diff'' (PDict [])
              in then_do (py_get text_diff ''added_count'' (PInt 0)) (\<lambda>added.
                 then_do (py_get text_diff ''removed_count'' (PInt 0)) (\<lambda>removed.
                 then_do (py_add added removed) (\<lambda>total.
                 then_do (num_gt total 10) (\<lambda>many.
                   if many then Inr True else Inr False)))))))"

definition default_threshold :: rat where
  "default_threshold = 5"

section \<open>Noise filter\<close>

text \<open>\<^verbatim>\<open>SemanticDiff.filter_noise(change_data, semantic_analysis)\<close>. The semantic analysis
  is what the external service answered, decoded from JSON: any Python value.\<close>

definition filter_noise :: "pydict \<Rightarrow> pyval \<Rightarrow> error + bool" where
  "filter_noise change_data semantic_analysis =
     then_do (py_get semantic_analysis ''significance'' (PStr ''medium'')) (\<lambda>sig_raw.
     then_do (py_lower sig_raw) (\<lambda>significance.
       (let change_percentage = dict_get change_data ''content_change_percentage'' (PFloat 0)
        in then_do
             (if significance = ''low'' then num_lt change_percentage 2 else Inr False)
             (\<lambda>low_and_small. if low_and_small then Inr True
                else
                  then_do (py_get semantic_analysis ''change_type'' (PStr [])) (\<lambda>type_raw.
                  then_do (py_lower type_raw) (\<lambda>change_type.
                  then_do
                    (if change_type = ''other'' then num_lt change_percentage 1 else Inr False)
                    (\<lambda>other_and_tiny. if other_and_tiny then Inr True else Inr False)))))))"

section \<open>Semantic analysis adapter\<close>

text \<open>
  The prompt is a fixed instruction text into which four strings are interpolated; the
  external service is a function of these four. A call either raises (\<open>Inl m\<close>, with
  \<^verbatim>\<open>str(e) = m\<close>) or answers with a text. \<open>json_loads\<close> is \<^verbatim>\<open>json.loads\<close>, with \<open>None\<close>
  for \<^verbatim>\<open>JSONDecodeError\<close>.
\<close>

record prompt =
  prompt_asset_type :: string
  prompt_url :: string
  prompt_before :: string
  prompt_after :: string

record llm =
  call_llm :: "prompt \<Rightarrow> string + string"
  json_loads :: "string \<Rightarrow> pyval option"

definition truncate_content :: "string \<Rightarrow> string" where
  "truncate_content content =
     (if length content > 5000 then take 5000 content @ ''... [truncated]'' else content)"

definition build_prompt :: "string \<Rightarrow> string \<Rightarrow> string \<Rightarrow> string \<Rightarrow> prompt" where
  "build_prompt before_content after_content asset_type url =
     \<lparr>prompt_asset_type = asset_type, prompt_url = url,
      prompt_before = truncate_content before_content,
      prompt_after = truncate_content after_content\<rparr>"

definition strip_code_block :: "string \<Rightarrow> string" where
  "strip_code_block response_text =
     (let text = strip response_text
      in if starts_with text ''```''
         then (let lines = py_split text [CHR 0x0A]
               in if length lines > 2 then py_join [CHR 0x0A] (butlast (tl lines)) else text)
         else text)"

definition parse_response :: "llm \<Rightarrow> string \<Rightarrow> pyval" where
  "parse_response svc response_text =
     (let text = strip_code_block response_text
      in case json_loads svc text of
           Some result \<Rightarrow> result
         | None \<Rightarrow> PDict
             [(''summary'', PStr (if length text > 200 then take 200 text @ ''...'' else text)),
              (''change_type'', PStr ''unknown''),
              (''significance'', PStr ''medium''),
              (''error'', PStr ''Failed to parse JSON response'')])"

definition analyze_change :: "llm \<Rightarrow> string \<Rightarrow> string \<Rightarrow> string \<Rightarrow> string \<Rightarrow> pyval" where
  "analyze_change svc before_content after_content asset_type url =
     (case call_llm svc (build_prompt before_content after_content asset_type url) of
        Inr response \<Rightarrow> parse_response svc response
      | Inl message \<Rightarrow> PDict
          [(''summary'', PStr (''Change detected on '' @ asset_type @ '' page'')),
           (''change_type'', PStr ''unknown''),
           (''significance'', PStr ''medium''),
           (''error'', PStr message)])"

section \<open>The record store\<close>

text \<open>
  Tables are lists of rows in insertion order, and a row read through the ORM is the
  value of the row. Timestamps are integers (microseconds). A text column that is NULL
  is \<open>None\<close>.
\<close>

record competitor =
  competitor_id :: nat
  competitor_name :: string
  base_url :: string

record asset =
  asset_id :: nat
  asset_competitor_id :: nat
  asset_type :: string
  url :: string
  crawl_frequency :: string
  priority_threshold :: "string option"

record change =
  change_id :: nat
  change_asset_id :: nat
  snapshot_before_id :: nat
  snapshot_after_id :: nat
  change_type :: "string option"
  priority :: "string option"
  summary :: "string option"
  why_it_matters :: "string option"
  before_content :: "string option"
  after_content :: "string option"
  diff_metadata_json :: pyval
  detected_at :: "int option"
  alert_sent :: bool
  alert_sent_at :: "int option"

record alert =
  alert_id :: nat
  alert_change_id :: nat
  alert_priority :: string
  sent_at :: int
  delivery_type :: string

record store =
  competitors :: "competitor list"
  assets :: "asset list"
  snapshots :: "snapshot list"
  changes :: "change list"
  alerts :: "alert list"

text \<open>An autoincrement primary key: larger than every key in the table.\<close>

definition next_id :: "nat list \<Rightarrow> nat" where
  "next_id ids = Suc (fold max ids 0)"

text \<open>\<^verbatim>\<open>query(...).filter(...).first()\<close>.\<close>

definition first_where :: "('a \<Rightarrow> bool) \<Rightarrow> 'a list \<Rightarrow> 'a option" where
  "first_where P rows = (case filter P rows of [] \<Rightarrow> None | r # _ \<Rightarrow> Some r)"

text \<open>Writing to the row such a query returned.\<close>

fun update_first :: "('a \<Rightarrow> bool) \<Rightarrow> ('a \<Rightarrow> 'a) \<Rightarrow> 'a list \<Rightarrow> 'a list" where
  "update_first P f [] = []"
| "update_first P f (r # rows) = (if P r then f r # rows else r # update_first P f rows)"

section \<open>Change detector\<close>

text \<open>
  The detector with what it takes from outside: the diff engine's library functions,
  the semantic service (absent when \<open>has_llm\<close> is false), \<open>fmt\<close> for the text Python's
  f-strings give a value, \<open>bind_text\<close> for what the storage layer writes into a text
  column when handed a Python value (it may refuse the value), and the clock.
\<close>

record detector =
  diff_engine :: difflib
  has_llm :: bool
  semantic_diff :: llm
  fmt :: "pyval \<Rightarrow> string"
  bind_text :: "pyval \<Rightarrow> error + string option"
  utcnow :: int

definition infer_change_type :: "string \<Rightarrow> pydict \<Rightarrow> error + string" where
  "infer_change_type asset_ty change_data =
     (let structured_diff = dict_get change_data ''structured_diff'' PNone
      in if truthy structured_diff
         then
           then_do (either (py_in ''tier_changes'' structured_diff)
                           (py_in ''free_tier_changed'' structured_diff)) (\<lambda>pricing.
           if pricing then Inr ''pricing'' else
           then_do (either (py_in ''features_added'' structured_diff)
                           (py_in ''features_removed'' structured_diff)) (\<lambda>feature.
           if feature then Inr ''feature'' else
           then_do (either (py_in ''new_certifications'' structured_diff)
                           (py_in ''new_standards'' structured_diff)) (\<lambda>compliance.
           if compliance then Inr ''compliance'' else
           then_do (py_in ''new_entries'' structured_diff) (\<lambda>changelog.
           if changelog then Inr ''changelog'' else
           then_do (py_in ''new_urls'' structured_diff) (\<lambda>sitemap.
           if sitemap then Inr ''sitemap'' else
           then_do (py_in ''new_posts'' structured_diff) (\<lambda>blog.
           if blog then Inr ''blog'' else Inr asset_ty))))))
         else Inr asset_ty)"

definition generate_basic_summary :: "(pyval \<Rightarrow> string) \<Rightarrow> pydict \<Rightarrow> string \<Rightarrow> error + string" where
  "generate_basic_summary f change_data asset_ty =
     (let text_diff = dict_get change_data ''text_diff'' (PDict [])
      in then_do (py_get text_diff ''added_count'' (PInt 0)) (\<lambda>added.
         then_do (py_get text_diff ''removed_count'' (PInt 0)) (\<lambda>removed.
         (let change_pct = dict_get change_data ''content_change_percentage'' (PFloat 0)
          in then_do (both (num_gt added 0) (num_gt removed 0)) (\<lambda>updated.
             if updated
             then Inr (''Content updated on '' @ asset_ty @ '' page: '' @ f added
                       @ '' lines added, '' @ f removed @ '' lines removed ('' @ f change_pct
                       @ ''% change)'')
             else then_do (num_gt added 0) (\<lambda>grew.
             if grew
             then Inr (''Content added to '' @ asset_ty @ '' page: '' @ f added
                       @ '' new lines ('' @ f change_pct @ ''% change)'')
             else then_do (num_gt removed 0) (\<lambda>shrank.
             if shrank
             then Inr (''Content removed from '' @ asset_ty @ '' page: '' @ f removed
                       @ '' lines removed ('' @ f change_pct @ ''% change)'')
             else Inr (''Change detected on '' @ asset_ty @ '' page ('' @ f change_pct
                       @ ''% change)''))))))))"

text \<open>\<^verbatim>\<open>_create_change_record\<close>: the values of the new row, then the insertion. The
  semantic analysis is \<open>PNone\<close> when there is none.\<close>

definition create_change_record ::
  "detector \<Rightarrow> asset \<Rightarrow> snapshot \<Rightarrow> snapshot \<Rightarrow> pydict \<Rightarrow> pyval \<Rightarrow> store
     \<Rightarrow> error + (change \<times> store)" where
  "create_change_record d a snapshot_before snapshot_after change_data semantic_analysis db =
     then_do
       (if truthy semantic_analysis
        then
          then_do (py_get semantic_analysis ''change_type'' (PStr ''unknown'')) (\<lambda>ty.
          then_do (py_get semantic_analysis ''summary'' (PStr ''Change detected'')) (\<lambda>su.
          then_do (py_get semantic_analysis ''why_it_matters'' (PStr [])) (\<lambda>why.
          then_do (py_get semantic_analysis ''significance'' (PStr ''medium'')) (\<lambda>significance.
            Inr (ty, su, why)))))
        else
          then_do (infer_change_type (asset_type a) change_data) (\<lambda>ty.
          then_do (generate_basic_summary (fmt d) change_data (asset_type a)) (\<lambda>su.
            Inr (PStr ty, PStr su, PStr (''Change detected on '' @ asset_type a @ '' page'')))))
       (\<lambda>(ty, su, why).
          then_do (py_take 10000 (dict_get change_data ''before_content'' (PStr []))) (\<lambda>before.
          then_do (py_take 10000 (dict_get change_data ''after_content'' (PStr []))) (\<lambda>after.
          then_do (bind_text d ty) (\<lambda>ty_col.
          then_do (bind_text d su) (\<lambda>su_col.
          then_do (bind_text d why) (\<lambda>why_col.
          then_do (bind_text d before) (\<lambda>before_col.
          then_do (bind_text d after) (\<lambda>after_col.
            (let c = \<lparr>change_id = next_id (map change_id (changes db)),
                      change_asset_id = asset_id a,
                      snapshot_before_id = snap_id snapshot_before,
                      snapshot_after_id = snap_id snapshot_after,
                      change_type = ty_col,
                      priority = None,
                      summary = su_col,
                      why_it_matters = why_col,
                      before_content = before_col,
                      after_content = after_col,
                      diff_metadata_json =
                        py_or (dict_get change_data ''structured_diff'' PNone)
                              (dict_get change_data ''text_diff'' PNone),
                      detected_at = Some (utcnow d),
                      alert_sent = False,
                      alert_sent_at = None\<rparr>
             in Inr (c, db\<lparr>changes := changes db @ [c]\<rparr>))))))))))"

text \<open>The two most recent snapshots of an asset, most recent first
  (\<^verbatim>\<open>order_by(crawl_timestamp.desc()).limit(2)\<close>); rows with equal timestamps
  keep their table order.\<close>

definition latest_snapshots :: "store \<Rightarrow> nat \<Rightarrow> snapshot list" where
  "latest_snapshots db aid =
     take 2 (sort_key (\<lambda>s. - crawl_timestamp s) (filter (\<lambda>s. snap_asset_id s = aid) (snapshots db)))"

text \<open>\<^verbatim>\<open>detect_changes_for_asset\<close>. The result is the returned list with the store
  as committed; an exception (\<open>Inl\<close>) leaves the store as it was, the session being
  rolled back.\<close>

definition detect_changes_for_asset ::
  "detector \<Rightarrow> asset \<Rightarrow> store \<Rightarrow> error + (change list \<times> store)" where
  "detect_changes_for_asset d detached db =
     (case first_where (\<lambda>r. asset_id r = asset_id detached) (assets db) of
        None \<Rightarrow> Inr ([], db)
      | Some a \<Rightarrow>
         (case latest_snapshots db (asset_id a) of
            snapshot_after # snapshot_before # _ \<Rightarrow>
              (case first_where (\<lambda>c. snapshot_after_id c = snap_id snapshot_after) (changes db) of
                 Some existing_change \<Rightarrow> Inr ([], db)
               | None \<Rightarrow>
                   then_do (compare_snapshots (diff_engine d) (asset_type a)
                              snapshot_before snapshot_after) (\<lambda>compared.
                   case compared of
                     None \<Rightarrow> Inr ([], db)
                   | Some change_data \<Rightarrow>
                       if change_data = [] then Inr ([], db) else
                       then_do (is_significant_change change_data default_threshold) (\<lambda>significant.
                       if \<not> significant then Inr ([], db) else
                       (let create = (\<lambda>semantic_analysis.
                              then_do (create_change_record d a snapshot_before snapshot_after
                                         change_data semantic_analysis db)
                                (\<lambda>(c, db'). Inr ([c], db')))
                        in case (has_llm d, content_text snapshot_before,
                                 content_text snapshot_after) of
                             (True, Some tb, Some ta) \<Rightarrow>
                               if tb \<noteq> [] \<and> ta \<noteq> []
                               then
                                 (let semantic_analysis =
                                        analyze_change (semantic_diff d) tb ta (asset_type a) (url a)
                                  in case filter_noise change_data semantic_analysis of
                                       Inr True \<Rightarrow> Inr ([], db)
                                     | Inr False \<Rightarrow> create semantic_analysis
                                     | Inl e \<Rightarrow> create semantic_analysis)
                               else create PNone
                           | _ \<Rightarrow> create PNone))))
          | _ \<Rightarrow> Inr ([], db)))"

section \<open>Classifier\<close>

subsection \<open>Output normalisation and the rule-based fallback\<close>


text \<open>\<^verbatim>\<open>ChangeClassifier._rule_based_classification_static(change_data, asset_type,
  change_type)\<close>; \<open>f\<close> is the text an f-string gives a value.\<close>

definition rule_based_classification_static ::
  "(pyval \<Rightarrow> string) \<Rightarrow> pydict \<Rightarrow> string \<Rightarrow> string option \<Rightarrow> error + pydict" where
  "rule_based_classification_static f change_data asset_ty change_ty =
     (let structured_diff = dict_get change_data ''structured_diff'' PNone
      in then_do
           (then_do (either (Inr (change_ty = Some ''pricing''))
                       (if truthy structured_diff then py_in ''tier_changes'' structured_diff
                        else Inr False)) (\<lambda>pricing.
            if pricing then Inr ''high'' else
            then_do (either (Inr (change_ty = Some ''compliance''))
                       (if truthy structured_diff then py_in ''new_certifications'' structured_diff
                        else Inr False)) (\<lambda>compliance.
            if compliance then Inr ''high'' else
            if change_ty = Some ''feature'' \<and> truthy structured_diff
            then then_do (py_get structured_diff ''features_added'' (PList [])) (\<lambda>features_added.
                 then_do (py_len features_added) (\<lambda>n.
                 if n > 0 then Inr ''high'' else Inr ''medium''))
            else if change_ty = Some ''changelog'' then Inr ''medium''
            else if change_ty = Some ''blog'' \<or> change_ty = Some ''content'' then Inr ''low''
            else Inr ''medium'')))
           (\<lambda>priority.
              (let change_percentage = dict_get change_data ''content_change_percentage'' (PFloat 0);
                   summary = ''Change detected on '' @ asset_ty @ '' page ('' @ f change_percentage
                             @ ''% change)'';
                   why_it_matters = ''Monitor '' @ asset_ty @ '' changes for competitive intelligence''
               in Inr [(''priority'', PStr priority),
                       (''change_type'', py_or (text_val change_ty) (PStr asset_ty)),
                       (''summary'', PStr summary),
                       (''why_it_matters'', PStr why_it_matters),
                       (''confidence'', PFloat float_0_6)])))"

subsection \<open>Priority assignment and the quality gate\<close>

definition HIGH_PRIORITY_KEYWORDS :: "string list" where
  "HIGH_PRIORITY_KEYWORDS =
     [''pricing'', ''price'', ''tier'', ''plan'', ''free tier'',
      ''certification'', ''compliance'', ''SOC'', ''ISO'', ''GDPR'', ''HIPAA'',
      ''integration'', ''launch'', ''release'', ''feature'']"

definition MEDIUM_PRIORITY_KEYWORDS :: "string list" where
  "MEDIUM_PRIORITY_KEYWORDS =
     [''changelog'', ''update'', ''news'', ''press release'',
      ''case study'', ''customer'', ''logo'', ''twitter'', ''tweet'']"

definition LOW_PRIORITY_KEYWORDS :: "string list" where
  "LOW_PRIORITY_KEYWORDS =
     [''homepage'', ''landing'', ''testimonial'', ''blog'',
      ''thought leadership'', ''industry'']"

text \<open>\<^verbatim>\<open>any(keyword in text for keyword in keywords)\<close>.\<close>

definition any_keyword :: "string list \<Rightarrow> string \<Rightarrow> bool" where
  "any_keyword keywords text = list_ex (\<lambda>keyword. contains text keyword) keywords"

text \<open>The text the keyword rules read:
  \<^verbatim>\<open>(classification.get(k) or change.<k> or '').lower()\<close>.\<close>

definition field_lower :: "pydict \<Rightarrow> string \<Rightarrow> string option \<Rightarrow> error + string" where
  "field_lower classification k stored =
     py_lower (py_or (py_or (dict_get classification k PNone) (text_val stored)) (PStr []))"

definition rule_based_priority :: "change \<Rightarrow> pydict \<Rightarrow> error + string" where
  "rule_based_priority c classification =
     then_do (field_lower classification ''change_type'' (change_type c)) (\<lambda>change_ty.
     then_do (field_lower classification ''summary'' (summary c)) (\<lambda>summ.
     then_do (field_lower classification ''why_it_matters'' (why_it_matters c)) (\<lambda>why.
     (let combined_text = change_ty @ '' '' @ summ @ '' '' @ why
      in if any_keyword HIGH_PRIORITY_KEYWORDS combined_text
            \<and> \<not> any_keyword LOW_PRIORITY_KEYWORDS combined_text then Inr ''high''
         else if any_keyword MEDIUM_PRIORITY_KEYWORDS combined_text then Inr ''medium''
         else if any_keyword LOW_PRIORITY_KEYWORDS combined_text then Inr ''low''
         else if change_ty \<in> set [''pricing'', ''compliance''] then Inr ''high''
         else if change_ty \<in> set [''changelog'', ''news''] then Inr ''medium''
         else Inr ''low''))))"

definition assign_priority :: "change \<Rightarrow> pydict \<Rightarrow> error + string" where
  "assign_priority c classification =
     then_do (num_ge (dict_get classification ''confidence'' (PFloat 0)) float_0_7) (\<lambda>confident.
     if confident
     then then_do (py_lower (dict_get classification ''priority'' (PStr ''medium''))) (\<lambda>priority.
          if priority \<in> set [''high'', ''medium'', ''low''] then Inr priority
          else rule_based_priority c classification)
     else rule_based_priority c classification)"

text \<open>\<^verbatim>\<open>validate_quality\<close> returns \<^verbatim>\<open>(True, None)\<close>, modelled by \<open>None\<close>, or
  \<^verbatim>\<open>(False, message)\<close>, modelled by the reason the message words.\<close>

datatype rejection =
    SummaryMissing
  | TooManySentences nat
  | RationaleMissingOrShort
  | SpeculativeLanguage
  | ConfidenceTooLow pyval
  | ContentMissing

definition speculative_words :: "string list" where
  "speculative_words = [''might'', ''could'', ''possibly'', ''perhaps'', ''maybe'', ''potentially'']"

definition validate_quality :: "change \<Rightarrow> pydict \<Rightarrow> error + rejection option" where
  "validate_quality c classification =
     (let summ = py_or (dict_get classification ''summary'' PNone) (text_val (summary c))
      in if \<not> truthy summ then Inr (Some SummaryMissing) else
         then_do (py_split_val summ ''. '') (\<lambda>sentences.
         if length sentences > 3 then Inr (Some (TooManySentences (length sentences))) else
         (let why = py_or (dict_get classification ''why_it_matters'' PNone)
                          (text_val (why_it_matters c))
          in then_do (if \<not> truthy why then Inr True
                      else then_do (py_strip why) (\<lambda>stripped. Inr (length stripped < 10)))
               (\<lambda>too_short.
            if too_short then Inr (Some RationaleMissingOrShort) else
            then_do (py_lower why) (\<lambda>why_lower.
            if any_keyword speculative_words why_lower
               \<and> \<not> any_keyword [''could indicate'', ''might suggest''] why_lower
            then Inr (Some SpeculativeLanguage) else
            (let confidence = dict_get classification ''confidence'' (PFloat 0)
             in then_do (num_lt confidence float_0_3) (\<lambda>low.
                if low then Inr (Some (ConfidenceTooLow confidence)) else
                if \<not> has_text (before_content c) \<or> \<not> has_text (after_content c)
                then Inr (Some ContentMissing)
                else Inr None)))))))"

text \<open>\<^verbatim>\<open>priority_levels.get(p, 2)\<close>.\<close>

definition priority_level :: "string \<Rightarrow> nat" where
  "priority_level p =
     (case map_of [(''high'', 3), (''medium'', 2), (''low'', 1)] p of None \<Rightarrow> 2 | Some n \<Rightarrow> n)"

definition should_alert :: "change \<Rightarrow> pydict \<Rightarrow> string option \<Rightarrow> error + bool" where
  "should_alert c classification threshold =
     then_do (validate_quality c classification) (\<lambda>rejected.
     if rejected \<noteq> None then Inr False else
     then_do (assign_priority c classification) (\<lambda>priority.
     (case threshold of
        Some t \<Rightarrow>
          if t \<noteq> []
          then (let threshold_level = priority_level (lower t);
                    change_level = priority_level priority
                in if change_level < threshold_level then Inr False else Inr True)
          else Inr True
      | None \<Rightarrow> Inr True)))"

section \<open>Alert manager\<close>

text \<open>
  An object loaded through the ORM is attached to the session that loaded it. Leaving a
  \<^verbatim>\<open>with DatabaseSession()\<close> block runs \<^verbatim>\<open>DatabaseSession.__exit__\<close>, which commits (or
  rolls back) and then closes the session. The session comes from
  \<^verbatim>\<open>sessionmaker(bind=engine)\<close>, whose commit and rollback expire every object the session
  loaded; the close detaches them. From then on reading an attribute of such an object
  raises \<^verbatim>\<open>DetachedInstanceError\<close>.
\<close>

datatype 'a orm_object = Attached 'a | Expired

definition attr :: "'a orm_object \<Rightarrow> error + 'a" where
  "attr obj = (case obj of Attached row \<Rightarrow> Inr row | Expired \<Rightarrow> Inl DetachedInstanceError)"

definition session_exit :: "'a orm_object \<Rightarrow> 'a orm_object" where
  "session_exit obj = Expired"

text \<open>
  The notification sink is the list of the messages handed to the webhook, in order;
  \<open>deliver\<close> tells whether the webhook accepts a message (\<^verbatim>\<open>send_message\<close> returns
  \<^verbatim>\<open>True\<close>) or the request fails. One call reads the clock once. A call gives its outcome,
  a returned value or the exception it raises, and the system it leaves behind.
\<close>

datatype slack_message =
    AlertMessage pydict
  | DigestMessage "pydict list" string string

record alert_manager =
  has_slack :: bool
  deliver :: "slack_message \<Rightarrow> bool"
  clock :: int

record system =
  db :: store
  outbox :: "slack_message list"

definition mark_sent :: "int \<Rightarrow> change \<Rightarrow> change" where
  "mark_sent now c = c\<lparr>alert_sent := True, alert_sent_at := Some now\<rparr>"

text \<open>\<^verbatim>\<open>send_immediate_alert(change)\<close>. The change is handed over as an object, attached
  or not. The three objects that the first session block loads are read after the block
  has ended. An attribute read on \<^verbatim>\<open>None\<close>, where a query found no row, raises
  \<^verbatim>\<open>AttributeError\<close>.\<close>

definition send_immediate_alert ::
  "alert_manager \<Rightarrow> change orm_object \<Rightarrow> system \<Rightarrow> (error + bool) \<times> system" where
  "send_immediate_alert am given sys =
     (if \<not> has_slack am then (Inr False, sys)
      else
        (case attr given of
           Inl e \<Rightarrow> (Inl e, sys)
         | Inr g \<Rightarrow>
            if priority g \<noteq> Some ''high'' then (Inr False, sys)
            else
              (case first_where (\<lambda>r. change_id r = change_id g) (changes (db sys)) of
                 None \<Rightarrow> (Inl AttributeError, sys)
               | Some c \<Rightarrow>
                  (case first_where (\<lambda>r. asset_id r = change_asset_id c) (assets (db sys)) of
                     None \<Rightarrow> (Inr False, sys)
                   | Some a \<Rightarrow>
                      (case first_where (\<lambda>r. competitor_id r = asset_competitor_id a)
                              (competitors (db sys)) of
                         None \<Rightarrow> (Inr False, sys)
                       | Some owner \<Rightarrow>
                          (let change_obj = session_exit (Attached c);
                               asset_obj = session_exit (Attached a);
                               competitor_obj = session_exit (Attached owner)
                           in case attr competitor_obj of
                                Inl e \<Rightarrow> (Inl e, sys)
                              | Inr co \<Rightarrow>
                           (case attr change_obj of
                                Inl e \<Rightarrow> (Inl e, sys)
                              | Inr ch \<Rightarrow>
                           (case attr asset_obj of
                                Inl e \<Rightarrow> (Inl e, sys)
                              | Inr ast \<Rightarrow>
                           (let message = AlertMessage
                                  [(''company'', PStr (competitor_name co)),
                                   (''priority'', PStr (text_or (priority ch) ''medium'')),
                                   (''asset'', PStr (asset_type ast)),
                                   (''change_type'', PStr (text_or (change_type ch) ''unknown'')),
                                   (''summary'', PStr (text_or (summary ch) ''Change detected'')),
                                   (''why_it_matters'', PStr (text_or (why_it_matters ch)
                                       ''Monitor for competitive intelligence'')),
                                   (''url'', PStr (url ast)),
                                   (''timestamp'', PInt (case detected_at ch of
                                       None \<Rightarrow> clock am | Some t \<Rightarrow> t))];
                                sys1 = sys\<lparr>outbox := outbox sys @ [message]\<rparr>;
                                success = deliver am message
                            in if success
                               then
                                 (let new_alert =
                                        \<lparr>alert_id = next_id (map alert_id (alerts (db sys))),
                                         alert_change_id = change_id ch,
                                         alert_priority = text_or (priority ch) ''medium'',
                                         sent_at = clock am,
                                         delivery_type = ''immediate''\<rparr>
                                  in case first_where (\<lambda>r. change_id r = change_id ch)
                                            (changes (db sys)) of
                                       None \<Rightarrow> (Inl AttributeError, sys1)
                                     | Some row \<Rightarrow>
                                         (Inr True, sys1\<lparr>db := (db sys)
                                            \<lparr>alerts := alerts (db sys) @ [new_alert],
                                             changes := update_first
                                               (\<lambda>r. change_id r = change_id ch)
                                               (mark_sent (clock am)) (changes (db sys))\<rparr>\<rparr>))
                               else (Inr False, sys1))))))))))"

text \<open>\<^verbatim>\<open>get_pending_alerts(priority, since)\<close>: the objects are returned from inside the
  session block, so the caller receives them after the block has ended.\<close>

definition get_pending_alerts ::
  "store \<Rightarrow> string option \<Rightarrow> int option \<Rightarrow> change orm_object list" where
  "get_pending_alerts s prio since =
     map (\<lambda>c. session_exit (Attached c))
       (filter (\<lambda>c.
          list_ex (\<lambda>a. asset_id a = change_asset_id c) (assets s)
          \<and> alert_sent c = False
          \<and> priority c \<noteq> None
          \<and> (has_text prio \<longrightarrow> priority c = prio)
          \<and> (case since of
                None \<Rightarrow> True
              | Some t \<Rightarrow> (case detected_at c of None \<Rightarrow> False | Some d \<Rightarrow> t \<le> d)))
         (changes s))"

text \<open>One round of the loop that formats a digest: the entry for a pending change, and
  its id.\<close>

definition digest_entry :: "store \<Rightarrow> change orm_object \<Rightarrow> error + (pydict \<times> nat)" where
  "digest_entry s obj =
     then_do (attr obj) (\<lambda>c.
     (case first_where (\<lambda>r. asset_id r = change_asset_id c) (assets s) of
        None \<Rightarrow> Inl AttributeError
      | Some a \<Rightarrow>
         (case first_where (\<lambda>r. competitor_id r = asset_competitor_id a) (competitors s) of
            None \<Rightarrow> Inl AttributeError
          | Some owner \<Rightarrow> Inr
              ([(''company'', PStr (competitor_name owner)),
                (''priority'', text_val (priority c)),
                (''asset'', PStr (asset_type a)),
                (''change_type'', PStr (text_or (change_type c) ''unknown'')),
                (''summary'', PStr (text_or (summary c) ''Change detected'')),
                (''why_it_matters'', PStr (text_or (why_it_matters c)
                    ''Monitor for competitive intelligence'')),
                (''url'', PStr (url a)),
                (''timestamp'', (case detected_at c of None \<Rightarrow> PNone | Some t \<Rightarrow> PInt t))],
               change_id c))))"

fun digest_entries :: "store \<Rightarrow> change orm_object list \<Rightarrow> error + (pydict \<times> nat) list" where
  "digest_entries s [] = Inr []"
| "digest_entries s (obj # objs) =
     then_do (digest_entry s obj) (\<lambda>e. then_do (digest_entries s objs) (\<lambda>es. Inr (e # es)))"

text \<open>The loop that marks the changes of a delivered digest and records their alerts.
  An alert takes the priority of its change, which is set for every pending change.\<close>

fun record_digest :: "int \<Rightarrow> string \<Rightarrow> nat list \<Rightarrow> store \<Rightarrow> store" where
  "record_digest now dtype [] s = s"
| "record_digest now dtype (i # ids) s =
     (case first_where (\<lambda>r. change_id r = i) (changes s) of
        None \<Rightarrow> record_digest now dtype ids s
      | Some c \<Rightarrow>
          record_digest now dtype ids
            (s\<lparr>changes := update_first (\<lambda>r. change_id r = i) (mark_sent now) (changes s),
               alerts := alerts s @
                 [\<lparr>alert_id = next_id (map alert_id (alerts s)),
                   alert_change_id = change_id c,
                   alert_priority = text_or (priority c) [],
                   sent_at = now,
                   delivery_type = dtype\<rparr>]\<rparr>))"

text \<open>\<^verbatim>\<open>send_daily_digest\<close> and \<^verbatim>\<open>send_weekly_summary\<close> are the same code up to the
  tier, the lookback window, the title and the channel tag.\<close>

definition send_sweep ::
  "alert_manager \<Rightarrow> string \<Rightarrow> int \<Rightarrow> string \<Rightarrow> string \<Rightarrow> system \<Rightarrow> (error + unit) \<times> system" where
  "send_sweep am tier lookback title dtype sys =
     (if \<not> has_slack am then (Inr (), sys)
      else
        (let since = clock am - lookback;
             pending = get_pending_alerts (db sys) (Some tier) (Some since)
         in if pending = [] then (Inr (), sys)
            else
              (case digest_entries (db sys) pending of
                 Inl e \<Rightarrow> (Inl e, sys)
               | Inr entries \<Rightarrow>
                  (let payloads = map fst entries;
                       change_ids = map snd entries;
                       message = DigestMessage payloads title tier;
                       sys1 = sys\<lparr>outbox := outbox sys @ [message]\<rparr>
                   in if deliver am message
                      then (Inr (), sys1\<lparr>db := record_digest (clock am) dtype change_ids (db sys)\<rparr>)
                      else (Inr (), sys1)))))"

definition microseconds_per_day :: int where
  "microseconds_per_day = 86400000000"

definition send_daily_digest :: "alert_manager \<Rightarrow> system \<Rightarrow> (error + unit) \<times> system" where
  "send_daily_digest am sys =
     send_sweep am ''medium'' microseconds_per_day
       ''Daily Competitive Intelligence Digest'' ''daily_digest'' sys"

definition send_weekly_summary :: "alert_manager \<Rightarrow> system \<Rightarrow> (error + unit) \<times> system" where
  "send_weekly_summary am sys =
     send_sweep am ''low'' (7 * microseconds_per_day)
       ''Weekly Competitive Intelligence Summary'' ''weekly_summary'' sys"

section \<open>Concrete inputs\<close>

text \<open>A diff library whose structured comparison always raises: a call that reaches it
  shows in the result.\<close>

definition raising_lib :: difflib where
  "raising_lib =
     \<lparr>differ_compare = (\<lambda>a b. []), ratio_pct = (\<lambda>a b. 0),
      compare_structured = (\<lambda>b a t. Inl TypeError)\<rparr>"

definition snapshot_v1 :: snapshot where
  "snapshot_v1 =
     \<lparr>snap_id = 1, snap_asset_id = 1, content_hash = ''h1'',
      content_text = Some ''Plan A: $10/mo'', content_html = None,
      metadata_json = PDict [(''tiers'', PList [])],
      crawl_timestamp = 10, http_status = Some 200\<rparr>"

definition snapshot_same :: snapshot where
  "snapshot_same = snapshot_v1\<lparr>snap_id := 2, crawl_timestamp := 20\<rparr>"

definition snapshot_blank :: snapshot where
  "snapshot_blank =
     snapshot_v1\<lparr>snap_id := 3, content_hash := ''h3'', content_text := Some [],
                 crawl_timestamp := 30\<rparr>"

definition evidence_structured :: pydict where
  "evidence_structured =
     [(''text_diff'', PDict [(''added_count'', PInt 0), (''removed_count'', PInt 0)]),
      (''structured_diff'', PDict [(''new_urls'', PList [PStr ''/a''])]),
      (''content_change_percentage'', PFloat 0.1)]"

definition evidence_lines :: pydict where
  "evidence_lines =
     [(''text_diff'', PDict [(''added_count'', PInt 6), (''removed_count'', PInt 5)]),
      (''structured_diff'', PNone),
      (''content_change_percentage'', PFloat 1.5)]"

definition evidence_tiny :: pydict where
  "evidence_tiny = [(''content_change_percentage'', PFloat 0.5)]"

definition semantic_low_other :: pydict where
  "semantic_low_other = [(''significance'', PStr ''low''), (''change_type'', PStr ''other'')]"

definition failing_llm :: llm where
  "failing_llm = \<lparr>call_llm = (\<lambda>p. Inl ''timeout''), json_loads = (\<lambda>s. None)\<rparr>"

definition garbled_llm :: llm where
  "garbled_llm = \<lparr>call_llm = (\<lambda>p. Inr ''no json''), json_loads = (\<lambda>s. None)\<rparr>"

definition example_change :: change where
  "example_change =
     \<lparr>change_id = 1, change_asset_id = 1, snapshot_before_id = 1, snapshot_after_id = 2,
      change_type = Some ''changelog'', priority = None,
      summary = Some ''Notes updated'',
      why_it_matters = Some ''Two items shipped'',
      before_content = Some ''v1'', after_content = Some ''v2'',
      diff_metadata_json = PNone, detected_at = Some 100,
      alert_sent = False, alert_sent_at = None\<rparr>"

definition example_classification :: pydict where
  "example_classification =
     [(''priority'', PStr ''medium''),
      (''change_type'', PStr ''changelog''),
      (''summary'', PStr ''Notes updated''),
      (''why_it_matters'', PStr ''Two items shipped''),
      (''confidence'', PFloat 0.9)]"


text \<open>Three classifications for the priority rules: one at the trust cutoff, with the
  confidence the decimal 0.7 reads as; one whose summary names a high-priority keyword in
  capitals; one of type pricing whose summary also names a low-priority keyword.\<close>

definition boundary_classification :: pydict where
  "boundary_classification =
     [(''priority'', PStr ''Low''),
      (''change_type'', PStr ''pricing''),
      (''summary'', PStr ''Prices changed''),
      (''why_it_matters'', PStr ''Plan costs went up''),
      (''confidence'', PFloat (3152519739159347 / 4503599627370496))]"

definition keyword_classification :: pydict where
  "keyword_classification =
     [(''priority'', PStr ''low''),
      (''change_type'', PStr ''other''),
      (''summary'', PStr ''New PRICING Tier''),
      (''why_it_matters'', PStr ''Costs More''),
      (''confidence'', PFloat 0.5)]"

definition context_classification :: pydict where
  "context_classification =
     [(''priority'', PStr ''high''),
      (''change_type'', PStr ''pricing''),
      (''summary'', PStr ''Blog Post''),
      (''why_it_matters'', PStr ''Nothing''),
      (''confidence'', PFloat 0.5)]"

text \<open>A classification that carries none of the three text fields: the rules read them
  from the change.\<close>

definition bare_classification :: pydict where
  "bare_classification = [(''priority'', PStr ''high''), (''confidence'', PFloat 0.5)]"


definition plain_fmt :: "pyval \<Rightarrow> string" where
  "plain_fmt v = ''1.5''"

definition fallback_example :: pydict where
  "fallback_example =
     [(''priority'', PStr ''high''),
      (''change_type'', PStr ''pricing''),
      (''summary'', PStr ''Change detected on pricing page (1.5% change)''),
      (''why_it_matters'', PStr ''Monitor pricing changes for competitive intelligence''),
      (''confidence'', PFloat float_0_6)]"

definition example_lib :: difflib where
  "example_lib =
     \<lparr>differ_compare = (\<lambda>a b. [''- Plan A: $10/mo'', ''+ Plan A: $15/mo'']),
      ratio_pct = (\<lambda>a b. 7.14),
      compare_structured = (\<lambda>b a t. Inr (PDict [(''tier_changes'', PList [PStr ''Plan A''])]))\<rparr>"

definition text_column :: "pyval \<Rightarrow> error + string option" where
  "text_column v = (case v of PStr s \<Rightarrow> Inr (Some s) | PNone \<Rightarrow> Inr None | _ \<Rightarrow> Inl StorageError)"

definition example_detector :: detector where
  "example_detector =
     \<lparr>diff_engine = example_lib, has_llm = True, semantic_diff = failing_llm,
      fmt = plain_fmt, bind_text = text_column, utcnow = 100\<rparr>"

definition snapshot_v2 :: snapshot where
  "snapshot_v2 =
     \<lparr>snap_id = 4, snap_asset_id = 1, content_hash = ''h2'',
      content_text = Some ''Plan A: $15/mo'', content_html = None,
      metadata_json = PDict [(''tiers'', PList [])],
      crawl_timestamp = 40, http_status = Some 200\<rparr>"

definition example_asset :: asset where
  "example_asset =
     \<lparr>asset_id = 1, asset_competitor_id = 1, asset_type = ''pricing'', url = ''u'',
      crawl_frequency = ''daily'', priority_threshold = Some ''high''\<rparr>"

definition store_before :: store where
  "store_before =
     \<lparr>competitors = [\<lparr>competitor_id = 1, competitor_name = ''Acme'', base_url = ''b''\<rparr>],
      assets = [example_asset],
      snapshots = [snapshot_v1, snapshot_v2],
      changes = [], alerts = []\<rparr>"

definition detected_change :: change where
  "detected_change =
     \<lparr>change_id = 1, change_asset_id = 1, snapshot_before_id = 1, snapshot_after_id = 4,
      change_type = Some ''unknown'', priority = None,
      summary = Some ''Change detected on pricing page'',
      why_it_matters = Some [],
      before_content = Some ''Plan A: $10/mo'', after_content = Some ''Plan A: $15/mo'',
      diff_metadata_json = PDict [(''tier_changes'', PList [PStr ''Plan A''])],
      detected_at = Some 100, alert_sent = False, alert_sent_at = None\<rparr>"

definition store_after :: store where
  "store_after = store_before\<lparr>changes := [detected_change]\<rparr>"

definition example_evidence :: pydict where
  "example_evidence =
     [(''before_content'', PStr ''Plan A: $10/mo''),
      (''after_content'', PStr ''Plan A: $15/mo''),
      (''text_diff'', PDict (text_diff example_lib ''Plan A: $10/mo'' ''Plan A: $15/mo'')),
      (''structured_diff'', PDict [(''tier_changes'', PList [PStr ''Plan A''])]),
      (''content_change_percentage'', PFloat 7.14)]"

definition degraded_analysis :: pyval where
  "degraded_analysis = PDict
     [(''summary'', PStr ''Change detected on pricing page''),
      (''change_type'', PStr ''unknown''),
      (''significance'', PStr ''medium''),
      (''error'', PStr ''timeout'')]"

definition working_slack :: alert_manager where
  "working_slack = \<lparr>has_slack = True, deliver = (\<lambda>m. True), clock = 200\<rparr>"

definition sent_change :: change where
  "sent_change =
     detected_change\<lparr>priority := Some ''high'', alert_sent := True, alert_sent_at := Some 150\<rparr>"

definition first_alert :: alert where
  "first_alert =
     \<lparr>alert_id = 1, alert_change_id = 1, alert_priority = ''high'', sent_at = 150,
      delivery_type = ''immediate''\<rparr>"

definition sent_system :: system where
  "sent_system =
     \<lparr>db = store_before\<lparr>changes := [sent_change], alerts := [first_alert]\<rparr>, outbox = []\<rparr>"

text \<open>A store that holds, beside the delivered change, a medium-priority change that is
  still pending.\<close>

definition pending_change :: change where
  "pending_change =
     detected_change\<lparr>change_id := 2, priority := Some ''medium'', detected_at := Some 150\<rparr>"

definition mixed_system :: system where
  "mixed_system =
     \<lparr>db = store_before\<lparr>changes := [sent_change, pending_change], alerts := [first_alert]\<rparr>,
      outbox = []\<rparr>"

section \<open>Properties\<close>

subsection \<open>Auxiliary facts\<close>

lemma then_do_simps [simp]: "then_do (Inl e) f = Inl e" "then_do (Inr x) f = f x"
  by (simp_all add: then_do_def)















lemma rule_based_classification_result:
  assumes "rule_based_classification_static f cd ty cty = Inr cl"
  shows "\<exists>p. cl =
     [(''priority'', PStr p),
      (''change_type'', py_or (text_val cty) (PStr ty)),
      (''summary'', PStr (''Change detected on '' @ ty @ '' page (''
         @ f (dict_get cd ''content_change_percentage'' (PFloat 0)) @ ''% change)'')),
      (''why_it_matters'', PStr (''Monitor '' @ ty @ '' changes for competitive intelligence'')),
      (''confidence'', PFloat float_0_6)]"
  using assms unfolding rule_based_classification_static_def Let_def then_do_def
  by (auto split: sum.splits)

lemma rule_based_classification_confidence:
  assumes "rule_based_classification_static f cd ty cty = Inr cl"
  shows "dict_get cl ''confidence'' d = PFloat float_0_6"
  using rule_based_classification_result[OF assms] by (auto simp add: dict_get_def)

lemma either_simps:
  "either (Inr True) b = Inr True" "either (Inr False) b = b" "either (Inl e) b = Inl e"
  by (simp_all add: either_def)

lemma rule_based_classification_returns:
  assumes "dict_get cd ''structured_diff'' PNone = PNone
     \<or> (\<exists>sd fa. dict_get cd ''structured_diff'' PNone = PDict sd
           \<and> dict_get sd ''features_added'' (PList []) = PList fa)"
  shows "\<exists>cl. rule_based_classification_static f cd ty cty = Inr cl"
proof -
  let ?sd = "dict_get cd ''structured_diff'' PNone"
  have f: "truthy ?sd \<Longrightarrow> \<exists>v n. py_get ?sd ''features_added'' (PList []) = Inr v \<and> py_len v = Inr n"
    using assms by (auto simp add: py_get_def)
  have "\<exists>b. (if truthy ?sd then py_in ''tier_changes'' ?sd else Inr False) = Inr b"
    using assms by auto
  then obtain bt where bt: "(if truthy ?sd then py_in ''tier_changes'' ?sd else Inr False) = Inr bt"
    by blast
  have "\<exists>b. (if truthy ?sd then py_in ''new_certifications'' ?sd else Inr False) = Inr b"
    using assms by auto
  then obtain bc where bc: "(if truthy ?sd then py_in ''new_certifications'' ?sd else Inr False) = Inr bc"
    by blast
  show ?thesis
  proof (cases "truthy ?sd")
    case True
    then obtain v n where v: "py_get ?sd ''features_added'' (PList []) = Inr v" "py_len v = Inr n"
      using f by blast
    show ?thesis
      unfolding rule_based_classification_static_def Let_def
      using bt bc v True
      by (cases "cty = Some ''pricing''"; cases "cty = Some ''compliance''"; cases bt; cases bc)
         (simp_all add: either_simps)
  next
    case False
    show ?thesis
      unfolding rule_based_classification_static_def Let_def
      using bt bc False
      by (cases "cty = Some ''pricing''"; cases "cty = Some ''compliance''"; cases bt; cases bc)
         (simp_all add: either_simps)
  qed
qed

lemma starts_with_iff: "starts_with s p \<longleftrightarrow> (\<exists>post. s = p @ post)"
proof
  assume "starts_with s p"
  then have "s = p @ drop (length p) s"
    unfolding starts_with_def by (metis append_take_drop_id)
  then show "\<exists>post. s = p @ post" ..
next
  assume "\<exists>post. s = p @ post"
  then show "starts_with s p" by (auto simp add: starts_with_def)
qed

lemma contains_iff: "contains s k \<longleftrightarrow> (\<exists>pre post. s = pre @ k @ post)"
proof (induction s)
  case Nil
  show ?case by auto
next
  case (Cons c cs)
  show ?case
  proof
    assume "contains (c # cs) k"
    then consider "starts_with (c # cs) k" | "contains cs k" by auto
    then show "\<exists>pre post. c # cs = pre @ k @ post"
    proof cases
      case 1
      then obtain post where "c # cs = [] @ k @ post" using starts_with_iff by auto
      then show ?thesis by blast
    next
      case 2
      then obtain pre post where "cs = pre @ k @ post" using Cons.IH by blast
      then have "c # cs = (c # pre) @ k @ post" by simp
      then show ?thesis by blast
    qed
  next
    assume "\<exists>pre post. c # cs = pre @ k @ post"
    then obtain pre post where e: "c # cs = pre @ k @ post" by blast
    show "contains (c # cs) k"
    proof (cases pre)
      case Nil
      then have "starts_with (c # cs) k" using e starts_with_iff by auto
      then show ?thesis by simp
    next
      case (Cons d pre')
      then have "cs = pre' @ k @ post" using e by simp
      then have "contains cs k" using Cons.IH by blast
      then show ?thesis by simp
    qed
  qed
qed

lemma any_keyword_iff:
  "any_keyword keywords t \<longleftrightarrow> (\<exists>k \<in> set keywords. \<exists>pre post. t = pre @ k @ post)"
  by (simp add: any_keyword_def list_ex_iff contains_iff)

lemma lower_alphabet:
  "lower ''ABCDEFGHIJKLMNOPQRSTUVWXYZ'' = ''abcdefghijklmnopqrstuvwxyz''"
  by (simp add: lower_def lower_char_def)

lemma lower_char_other:
  "c \<notin> set ''ABCDEFGHIJKLMNOPQRSTUVWXYZ'' \<Longrightarrow> lower_char c = c"
proof -
  assume a: "c \<notin> set ''ABCDEFGHIJKLMNOPQRSTUVWXYZ''"
  have "map_of (zip ''ABCDEFGHIJKLMNOPQRSTUVWXYZ'' ''abcdefghijklmnopqrstuvwxyz'') c = None"
    by (rule map_of_zip_is_None [THEN iffD2]) (use a in simp_all)
  then show ?thesis by (simp add: lower_char_def)
qed

lemma lower_other:
  "\<forall>c \<in> set s. c \<notin> set ''ABCDEFGHIJKLMNOPQRSTUVWXYZ'' \<Longrightarrow> lower s = s"
  unfolding lower_def by (rule map_idI) (simp add: lower_char_other)

lemma lower_append: "lower (s @ t) = lower s @ lower t"
  by (simp add: lower_def)

lemma lower_length: "length (lower s) = length s"
  by (simp add: lower_def)


lemma lower_char_not_upper: "lower_char c \<notin> set ''ABCDEFGHIJKLMNOPQRSTUVWXYZ''"
proof (cases "c \<in> set ''ABCDEFGHIJKLMNOPQRSTUVWXYZ''")
  case True
  have "\<forall>d \<in> set ''ABCDEFGHIJKLMNOPQRSTUVWXYZ''.
          lower_char d \<notin> set ''ABCDEFGHIJKLMNOPQRSTUVWXYZ''"
    by (simp add: lower_char_def)
  then show ?thesis using True by blast
next
  case False
  then show ?thesis using lower_char_other by simp
qed

lemma float_literals:
  "float_0_3 = 5404319552844595 / 2 ^ 54 \<and> \<bar>float_0_3 - 3 / 10\<bar> < 1 / 2 ^ 55
   \<and> float_0_6 = 5404319552844595 / 2 ^ 53 \<and> \<bar>float_0_6 - 6 / 10\<bar> < 1 / 2 ^ 54
   \<and> float_0_7 = 3152519739159347 / 2 ^ 52 \<and> \<bar>float_0_7 - 7 / 10\<bar> < 1 / 2 ^ 54"
  by (simp add: float_0_3_def float_0_6_def float_0_7_def)

lemma int_to_double_rounds:
  "int_to_double 9007199254740993 = 9007199254740992"
  "int_to_double 9007199254740995 = 9007199254740996"
  "int_to_double (- 7) = - 7"
  by (simp_all add: int_to_double_def bit_length.simps Let_def)

lemmas eval_strings =
  dict_get_def py_or_def text_val_def has_text_def py_split_val_def py_split_def starts_with_def
  ends_with_def py_strip_def strip_def is_space_def py_lower_def lower_def lower_char_def
  any_keyword_def num_lt_def num_ge_def num_gt_def Let_def field_lower_def

lemmas keyword_tables =
  HIGH_PRIORITY_KEYWORDS_def MEDIUM_PRIORITY_KEYWORDS_def LOW_PRIORITY_KEYWORDS_def

subsection \<open>Diff engine\<close>

text \<open>
  Claim C3. Two snapshots with the same content hash compare as absent
  (\<^verbatim>\<open>None\<close>), and so do two snapshots one of which has no extracted text (the text is
  \<^verbatim>\<open>None\<close> or empty). This holds whatever the diff functions compute, also when they
  would raise: none of them is reached.
\<close>

theorem compare_snapshots_absent:
  "(content_hash before = content_hash after
      \<longrightarrow> compare_snapshots lib ty before after = Inr None)
   \<and> (\<not> has_text (content_text before) \<or> \<not> has_text (content_text after)
      \<longrightarrow> compare_snapshots lib ty before after = Inr None)"
  by (simp add: compare_snapshots_def)

theorem compare_snapshots_absent_witness:
  "content_hash snapshot_v1 = content_hash snapshot_same
   \<and> compare_snapshots raising_lib ''pricing'' snapshot_v1 snapshot_same = Inr None
   \<and> \<not> has_text (content_text snapshot_blank)
   \<and> compare_snapshots raising_lib ''pricing'' snapshot_v1 snapshot_blank = Inr None"
  using compare_snapshots_absent [of snapshot_v1 snapshot_same raising_lib "''pricing''"]
        compare_snapshots_absent [of snapshot_v1 snapshot_blank raising_lib "''pricing''"]
  by (simp add: snapshot_v1_def snapshot_same_def snapshot_blank_def has_text_def text_val_def)

text \<open>
  Claim C4. A truthy structured diff makes the verdict true whatever else the evidence
  holds. For evidence whose change percentage is a number and whose line counts are
  integers (absent entries count as 0.0, as an empty text diff and as 0), the verdict is
  true exactly when the structured diff is present and non-empty, or the percentage
  reaches the threshold, or more than 10 lines were added or removed.
\<close>

theorem is_significant_change_iff:
  "(truthy (dict_get cd ''structured_diff'' PNone)
      \<longrightarrow> is_significant_change cd threshold = Inr True)
   \<and> (py_num (dict_get cd ''content_change_percentage'' (PFloat 0)) = Some pct
      \<and> dict_get cd ''text_diff'' (PDict []) = PDict td
      \<and> dict_get td ''added_count'' (PInt 0) = PInt added
      \<and> dict_get td ''removed_count'' (PInt 0) = PInt removed
      \<longrightarrow> is_significant_change cd threshold =
            Inr (truthy (dict_get cd ''structured_diff'' PNone)
                 \<or> threshold \<le> pct \<or> 10 < added + removed))"
  by (auto simp add: is_significant_change_def num_ge_def num_gt_def py_get_def Let_def)

theorem is_significant_change_iff_witness:
  "truthy (dict_get evidence_structured ''structured_diff'' PNone)
   \<and> is_significant_change evidence_structured default_threshold = Inr True
   \<and> py_num (dict_get evidence_lines ''content_change_percentage'' (PFloat 0)) = Some 1.5
   \<and> dict_get evidence_lines ''text_diff'' (PDict [])
        = PDict [(''added_count'', PInt 6), (''removed_count'', PInt 5)]
   \<and> is_significant_change evidence_lines default_threshold = Inr True"
  using is_significant_change_iff [where cd = evidence_structured and threshold = default_threshold]
        is_significant_change_iff [where cd = evidence_lines and pct = "1.5"
          and td = "[(''added_count'', PInt 6), (''removed_count'', PInt 5)]"
          and added = 6 and removed = 5 and threshold = default_threshold]
  by (simp add: evidence_structured_def evidence_lines_def dict_get_def default_threshold_def)

subsection \<open>Noise filter\<close>

text \<open>
  Claim C8. For a numeric change percentage and a semantic result whose significance
  and change type are strings (read lower-cased, an absent significance as "medium", an
  absent change type as the empty string), the filter answers true exactly when the
  significance is "low" and the percentage is below 2.0, or the change type is "other"
  and the percentage is below 1.0; otherwise it answers false.
\<close>

theorem filter_noise_iff:
  assumes "py_num (dict_get cd ''content_change_percentage'' (PFloat 0)) = Some pct"
    and "py_lower (dict_get sa ''significance'' (PStr ''medium'')) = Inr significance"
    and "py_lower (dict_get sa ''change_type'' (PStr [])) = Inr category"
  shows "filter_noise cd (PDict sa) =
           Inr ((significance = ''low'' \<and> pct < 2) \<or> (category = ''other'' \<and> pct < 1))"
  using assms by (auto simp add: filter_noise_def py_get_def num_lt_def Let_def)

theorem filter_noise_iff_witness:
  "py_num (dict_get evidence_tiny ''content_change_percentage'' (PFloat 0)) = Some 0.5
   \<and> py_lower (dict_get semantic_low_other ''significance'' (PStr ''medium'')) = Inr ''low''
   \<and> py_lower (dict_get semantic_low_other ''change_type'' (PStr [])) = Inr ''other''
   \<and> filter_noise evidence_tiny (PDict semantic_low_other) = Inr True"
proof -
  have a: "py_num (dict_get evidence_tiny ''content_change_percentage'' (PFloat 0)) = Some 0.5"
    by (simp add: evidence_tiny_def dict_get_def)
  have b: "py_lower (dict_get semantic_low_other ''significance'' (PStr ''medium'')) = Inr ''low''"
    by (simp add: semantic_low_other_def dict_get_def py_lower_def lower_def lower_char_def)
  have c: "py_lower (dict_get semantic_low_other ''change_type'' (PStr [])) = Inr ''other''"
    by (simp add: semantic_low_other_def dict_get_def py_lower_def lower_def lower_char_def)
  show ?thesis using a b c filter_noise_iff [OF a b c] by simp
qed

subsection \<open>Semantic analysis adapter\<close>

text \<open>
  Claim C9, as amended. \<^verbatim>\<open>analyze_change\<close> never raises (its result is a value for
  every service and every input). When the call to the service raises, and when the
  answer is not JSON, it returns a degraded dictionary with exactly four entries: a
  summary, the change type "unknown", the significance "medium" and an error marker.
  The summary is "Change detected on <asset type> page" when the call raised; when the
  answer did not parse it is the answer itself, stripped of its code fence and cut to
  200 characters. The dictionary has no rationale entry.
\<close>

theorem analyze_change_degraded:
  "(call_llm svc (build_prompt b a ty u) = Inl m \<longrightarrow>
      analyze_change svc b a ty u = PDict
        [(''summary'', PStr (''Change detected on '' @ ty @ '' page'')),
         (''change_type'', PStr ''unknown''),
         (''significance'', PStr ''medium''),
         (''error'', PStr m)])
   \<and> (call_llm svc (build_prompt b a ty u) = Inr r \<and> json_loads svc (strip_code_block r) = None
      \<longrightarrow> analyze_change svc b a ty u = PDict
        [(''summary'', PStr (if length (strip_code_block r) > 200
                             then take 200 (strip_code_block r) @ ''...''
                             else strip_code_block r)),
         (''change_type'', PStr ''unknown''),
         (''significance'', PStr ''medium''),
         (''error'', PStr ''Failed to parse JSON response'')])"
  by (simp add: analyze_change_def parse_response_def Let_def)

theorem analyze_change_degraded_witness:
  "call_llm failing_llm (build_prompt ''old'' ''new'' ''pricing'' ''u'') = Inl ''timeout''
   \<and> analyze_change failing_llm ''old'' ''new'' ''pricing'' ''u'' = PDict
        [(''summary'', PStr ''Change detected on pricing page''),
         (''change_type'', PStr ''unknown''),
         (''significance'', PStr ''medium''),
         (''error'', PStr ''timeout'')]
   \<and> call_llm garbled_llm (build_prompt ''old'' ''new'' ''pricing'' ''u'') = Inr ''no json''
   \<and> json_loads garbled_llm (strip_code_block ''no json'') = None
   \<and> analyze_change garbled_llm ''old'' ''new'' ''pricing'' ''u'' = PDict
        [(''summary'', PStr ''no json''),
         (''change_type'', PStr ''unknown''),
         (''significance'', PStr ''medium''),
         (''error'', PStr ''Failed to parse JSON response'')]"
proof -
  have s: "strip_code_block ''no json'' = ''no json''"
    by (simp add: strip_code_block_def strip_def is_space_def starts_with_def)
  show ?thesis
    using analyze_change_degraded [where svc = failing_llm and b = "''old''" and a = "''new''"
            and ty = "''pricing''" and u = "''u''" and m = "''timeout''"]
          analyze_change_degraded [where svc = garbled_llm and b = "''old''" and a = "''new''"
            and ty = "''pricing''" and u = "''u''" and r = "''no json''"]
    by (simp add: failing_llm_def garbled_llm_def s)
qed

text \<open>
  Claim C9 as stated asks for a rationale in the degraded result. When the service call
  fails the result has none: the key \<^verbatim>\<open>why_it_matters\<close> is absent.
\<close>

theorem analyze_change_no_rationale:
  "py_in ''why_it_matters'' (analyze_change failing_llm ''old'' ''new'' ''pricing'' ''u'')
     = Inr False
   \<and> py_get (analyze_change failing_llm ''old'' ''new'' ''pricing'' ''u'')
        ''why_it_matters'' PNone = Inr PNone"
  by (simp add: analyze_change_def failing_llm_def py_get_def dict_get_def)

subsection \<open>Classifier\<close>



text \<open>
  Claim C10. Whenever the rule-based fallback returns a classification, its confidence
  is the float 0.6, which lies strictly between the quality gate's floor 0.3 and the trust
  cutoff 0.7 (each literal read as the double nearest to it): the gate's confidence test
  does not fail on it, the gate never rejects it for low confidence, and the priority
  assigned to the change is the one the keyword rules compute, not the fallback's own.
  The fallback does return when the structured diff of its evidence is absent, or is a
  dictionary whose added features, if any, are a list.
\<close>

theorem fallback_confidence:
  "(rule_based_classification_static f cd ty cty = Inr cl \<longrightarrow>
      dict_get cl ''confidence'' PNone = PFloat float_0_6
      \<and> float_0_3 < float_0_6 \<and> float_0_6 < float_0_7
      \<and> num_lt (dict_get cl ''confidence'' (PFloat 0)) float_0_3 = Inr False
      \<and> (\<forall>c v. validate_quality c cl \<noteq> Inr (Some (ConfidenceTooLow v)))
      \<and> (\<forall>c. assign_priority c cl = rule_based_priority c cl))
   \<and> (dict_get cd ''structured_diff'' PNone = PNone
        \<or> (\<exists>sd fa. dict_get cd ''structured_diff'' PNone = PDict sd
              \<and> dict_get sd ''features_added'' (PList []) = PList fa)
      \<longrightarrow> (\<exists>cl'. rule_based_classification_static f cd ty cty = Inr cl'))
   \<and> float_0_3 = 5404319552844595 / 2 ^ 54 \<and> \<bar>float_0_3 - 3 / 10\<bar> < 1 / 2 ^ 55
   \<and> float_0_6 = 5404319552844595 / 2 ^ 53 \<and> \<bar>float_0_6 - 6 / 10\<bar> < 1 / 2 ^ 54
   \<and> float_0_7 = 3152519739159347 / 2 ^ 52 \<and> \<bar>float_0_7 - 7 / 10\<bar> < 1 / 2 ^ 54"
proof -
  have first: "dict_get cl ''confidence'' PNone = PFloat float_0_6
      \<and> float_0_3 < float_0_6 \<and> float_0_6 < float_0_7
      \<and> num_lt (dict_get cl ''confidence'' (PFloat 0)) float_0_3 = Inr False
      \<and> (\<forall>c v. validate_quality c cl \<noteq> Inr (Some (ConfidenceTooLow v)))
      \<and> (\<forall>c. assign_priority c cl = rule_based_priority c cl)"
    if r: "rule_based_classification_static f cd ty cty = Inr cl"
  proof -
    have conf: "\<And>d. dict_get cl ''confidence'' d = PFloat float_0_6"
      using rule_based_classification_confidence [OF r] by simp
    have gate: "num_lt (dict_get cl ''confidence'' (PFloat 0)) float_0_3 = Inr False"
      by (simp add: conf num_lt_def float_0_3_def float_0_6_def)
    have a: "\<forall>c. assign_priority c cl = rule_based_priority c cl"
      by (simp add: assign_priority_def conf num_ge_def float_0_6_def float_0_7_def)
    have b: "\<forall>c v. validate_quality c cl \<noteq> Inr (Some (ConfidenceTooLow v))"
      by (auto simp add: validate_quality_def conf num_lt_def Let_def then_do_def
            float_0_3_def float_0_6_def split: sum.splits if_splits)
    have o: "float_0_3 < float_0_6 \<and> float_0_6 < float_0_7"
      by (simp add: float_0_3_def float_0_6_def float_0_7_def)
    show ?thesis using conf gate a b o by simp
  qed
  have pins: "float_0_3 = 5404319552844595 / 2 ^ 54 \<and> \<bar>float_0_3 - 3 / 10\<bar> < 1 / 2 ^ 55
      \<and> float_0_6 = 5404319552844595 / 2 ^ 53 \<and> \<bar>float_0_6 - 6 / 10\<bar> < 1 / 2 ^ 54
      \<and> float_0_7 = 3152519739159347 / 2 ^ 52 \<and> \<bar>float_0_7 - 7 / 10\<bar> < 1 / 2 ^ 54"
    by (simp add: float_0_3_def float_0_6_def float_0_7_def)
  show ?thesis using first rule_based_classification_returns [of cd f ty cty] pins by blast
qed

theorem fallback_confidence_witness:
  "rule_based_classification_static plain_fmt evidence_lines ''pricing'' (Some ''pricing'')
     = Inr fallback_example
   \<and> dict_get evidence_lines ''structured_diff'' PNone = PNone
   \<and> dict_get fallback_example ''confidence'' PNone = PFloat float_0_6
   \<and> num_lt (dict_get fallback_example ''confidence'' (PFloat 0)) float_0_3 = Inr False
   \<and> assign_priority example_change fallback_example
       = rule_based_priority example_change fallback_example"
proof -
  have r: "rule_based_classification_static plain_fmt evidence_lines ''pricing'' (Some ''pricing'')
             = Inr fallback_example"
    by (simp add: rule_based_classification_static_def evidence_lines_def fallback_example_def
          plain_fmt_def dict_get_def either_simps py_or_def text_val_def Let_def)
  have n: "dict_get evidence_lines ''structured_diff'' PNone = PNone"
    by (simp add: evidence_lines_def dict_get_def)
  show ?thesis
    using r n fallback_confidence [where f = plain_fmt and cd = evidence_lines
            and ty = "''pricing''" and cty = "Some ''pricing''" and cl = fallback_example]
    by simp
qed

subsection \<open>Priority assignment and alert gating\<close>

lemma float_0_7_nearest:
  "float_0_7 = 3152519739159347 / 2 ^ 52 \<and> float_0_7 < 7 / 10
   \<and> 7 / 10 - float_0_7 < 1 / 2 ^ 54"
  by (simp add: float_0_7_def)

lemma field_lower_string:
  "py_or (py_or (dict_get cl k PNone) (text_val stored)) (PStr []) = PStr x
     \<Longrightarrow> field_lower cl k stored = Inr (lower x)"
  by (simp add: field_lower_def py_lower_def)

lemma field_lower_other:
  "\<forall>x. py_or (py_or (dict_get cl k PNone) (text_val stored)) (PStr []) \<noteq> PStr x
     \<Longrightarrow> field_lower cl k stored = Inl AttributeError"
  by (cases "py_or (py_or (dict_get cl k PNone) (text_val stored)) (PStr [])")
     (simp_all add: field_lower_def py_lower_def)

lemma field_lower_cases:
  "(\<exists>x. field_lower cl k stored = Inr x) \<or> field_lower cl k stored = Inl AttributeError"
  by (cases "py_or (py_or (dict_get cl k PNone) (text_val stored)) (PStr [])")
     (simp_all add: field_lower_def py_lower_def)

lemma rule_based_priority_table:
  assumes "py_or (py_or (dict_get cl ''change_type'' PNone) (text_val (change_type c))) (PStr [])
             = PStr ty"
    and "py_or (py_or (dict_get cl ''summary'' PNone) (text_val (summary c))) (PStr [])
             = PStr su"
    and "py_or (py_or (dict_get cl ''why_it_matters'' PNone) (text_val (why_it_matters c)))
           (PStr []) = PStr why"
  shows "rule_based_priority c cl = Inr
           (let combined = lower (ty @ '' '' @ su @ '' '' @ why);
                occurs = (\<lambda>keywords. \<exists>k \<in> set keywords. \<exists>pre post. combined = pre @ k @ post)
            in if occurs HIGH_PRIORITY_KEYWORDS \<and> \<not> occurs LOW_PRIORITY_KEYWORDS then ''high''
               else if occurs MEDIUM_PRIORITY_KEYWORDS then ''medium''
               else if occurs LOW_PRIORITY_KEYWORDS then ''low''
               else if lower ty \<in> {''pricing'', ''compliance''} then ''high''
               else if lower ty \<in> {''changelog'', ''news''} then ''medium''
               else ''low'')"
proof -
  have sp: "lower '' '' = '' ''" by (simp add: lower_def lower_char_def)
  have t: "lower (ty @ '' '' @ su @ '' '' @ why) = lower ty @ '' '' @ lower su @ '' '' @ lower why"
    using sp by (simp only: lower_append)
  show ?thesis
    unfolding rule_based_priority_def Let_def t
    using field_lower_string [OF assms(1)] field_lower_string [OF assms(2)]
          field_lower_string [OF assms(3)]
    by (simp add: any_keyword_iff)
qed

lemma rule_based_priority_raises:
  assumes "(\<forall>x. py_or (py_or (dict_get cl ''change_type'' PNone) (text_val (change_type c)))
                   (PStr []) \<noteq> PStr x)
     \<or> (\<forall>x. py_or (py_or (dict_get cl ''summary'' PNone) (text_val (summary c)))
                   (PStr []) \<noteq> PStr x)
     \<or> (\<forall>x. py_or (py_or (dict_get cl ''why_it_matters'' PNone) (text_val (why_it_matters c)))
                   (PStr []) \<noteq> PStr x)"
  shows "rule_based_priority c cl = Inl AttributeError"
proof -
  let ?a = "field_lower cl ''change_type'' (change_type c)"
  let ?b = "field_lower cl ''summary'' (summary c)"
  let ?c = "field_lower cl ''why_it_matters'' (why_it_matters c)"
  have e: "?a = Inl AttributeError \<or> ?b = Inl AttributeError \<or> ?c = Inl AttributeError"
    using assms field_lower_other by blast
  have ca: "(\<exists>x. ?a = Inr x) \<or> ?a = Inl AttributeError" by (rule field_lower_cases)
  have cb: "(\<exists>x. ?b = Inr x) \<or> ?b = Inl AttributeError" by (rule field_lower_cases)
  show ?thesis
  proof (cases "?a = Inl AttributeError")
    case True
    then show ?thesis by (simp add: rule_based_priority_def)
  next
    case a: False
    then obtain x where x: "?a = Inr x" using ca by blast
    show ?thesis
    proof (cases "?b = Inl AttributeError")
      case True
      then show ?thesis by (simp add: rule_based_priority_def x)
    next
      case False
      then obtain y where y: "?b = Inr y" using cb by blast
      have "?c = Inl AttributeError" using e a False by blast
      then show ?thesis by (simp add: rule_based_priority_def x y)
    qed
  qed
qed

lemma assign_priority_trusted:
  assumes "py_num (dict_get cl ''confidence'' (PFloat 0)) = Some conf" "float_0_7 \<le> conf"
    and "dict_get cl ''priority'' (PStr ''medium'') = PStr raw"
    and "lower raw \<in> {''high'', ''medium'', ''low''}"
  shows "assign_priority c cl = Inr (lower raw)"
  using assms by (simp add: assign_priority_def num_ge_def py_lower_def)

lemma assign_priority_recomputed:
  assumes "py_num (dict_get cl ''confidence'' (PFloat 0)) = Some conf"
    and "conf < float_0_7 \<or> (dict_get cl ''priority'' (PStr ''medium'') = PStr raw
                         \<and> lower raw \<notin> {''high'', ''medium'', ''low''})"
  shows "assign_priority c cl = rule_based_priority c cl"
  using assms by (auto simp add: assign_priority_def num_ge_def py_lower_def)

lemma assign_priority_no_number:
  "py_num (dict_get cl ''confidence'' (PFloat 0)) = None \<Longrightarrow> assign_priority c cl = Inl TypeError"
  by (simp add: assign_priority_def num_ge_def)

lemma assign_priority_no_string:
  "py_num (dict_get cl ''confidence'' (PFloat 0)) = Some conf \<Longrightarrow> float_0_7 \<le> conf
     \<Longrightarrow> \<forall>raw. dict_get cl ''priority'' (PStr ''medium'') \<noteq> PStr raw
     \<Longrightarrow> assign_priority c cl = Inl AttributeError"
  by (cases "dict_get cl ''priority'' (PStr ''medium'')")
     (simp_all add: assign_priority_def num_ge_def py_lower_def)

lemma boundary_rules: "rule_based_priority example_change boundary_classification = Inr ''high''"
  by (simp add: rule_based_priority_def boundary_classification_def example_change_def
        eval_strings keyword_tables)

lemma example_quality: "validate_quality example_change example_classification = Inr None"
  by (simp add: validate_quality_def example_change_def example_classification_def
        speculative_words_def float_0_3_def eval_strings)

lemma example_priority: "assign_priority example_change example_classification = Inr ''medium''"
  by (simp add: assign_priority_def example_classification_def float_0_7_def eval_strings)

text \<open>
  Claim C5. For a change that passes the quality gate, with computed priority \<open>P\<close>, and a
  configured threshold \<open>T\<close> (a non-empty string; the code skips the comparison when the
  asset has none), \<^verbatim>\<open>should_alert\<close> returns false exactly when the ordinal of \<open>P\<close> is
  below the ordinal of \<open>T\<close>. The ordinals are high = 3, medium = 2, low = 1; the
  threshold is read lower-cased, and one that is none of the three counts as 2.
\<close>

theorem should_alert_threshold:
  assumes "validate_quality c cl = Inr None"
    and "assign_priority c cl = Inr P"
    and "T \<noteq> []"
  shows "should_alert c cl (Some T) = Inr (\<not> priority_level P < priority_level (lower T))
     \<and> (should_alert c cl (Some T) = Inr False
          \<longleftrightarrow> priority_level P < priority_level (lower T))
     \<and> priority_level ''high'' = 3 \<and> priority_level ''medium'' = 2
     \<and> priority_level ''low'' = 1
     \<and> (lower T \<notin> {''high'', ''medium'', ''low''} \<longrightarrow> priority_level (lower T) = 2)"
  using assms by (auto simp add: should_alert_def priority_level_def Let_def)

theorem should_alert_threshold_witness:
  "validate_quality example_change example_classification = Inr None
   \<and> assign_priority example_change example_classification = Inr ''medium''
   \<and> ''high'' \<noteq> []
   \<and> should_alert example_change example_classification (Some ''high'') = Inr False"
  using should_alert_threshold [OF example_quality example_priority, of "''high''"]
        example_quality example_priority
  by (simp add: lower_def lower_char_def priority_level_def)

text \<open>
  Claim C6. \<^verbatim>\<open>assign_priority\<close> reads the confidence (0 when absent) and compares it with
  the float literal 0.7, that is with the double nearest to 0.7, which lies just below it.
  With a confidence of at least that cutoff and a stated priority (\<^verbatim>\<open>'medium'\<close> when
  absent) whose lower-cased text is one of high, medium and low, the result is the
  lower-cased stated priority. With a confidence below the cutoff, or a stated priority
  that is none of the three, the result is recomputed from the text: the change type,
  the summary and the rationale (each from the classification, else from the change, else
  empty), joined by single spaces and lower-cased. A keyword occurs when it is a
  contiguous part of that text. The result is high if a high-priority keyword occurs and
  no low-priority keyword does; else medium if a medium-priority keyword occurs; else low
  if a low-priority keyword occurs; else by the lower-cased change type: pricing and
  compliance high, changelog and news medium, anything else low. A confidence that is not
  a number raises \<^verbatim>\<open>TypeError\<close>; a stated priority or a text field that is not a string
  raises \<^verbatim>\<open>AttributeError\<close>. Lower-casing maps the capital letters to the small ones,
  leaves an ASCII text without capitals as it is, and works character by character.
\<close>

theorem assign_priority_selection:
  "(py_num (dict_get cl ''confidence'' (PFloat 0)) = Some conf \<and> float_0_7 \<le> conf
      \<and> dict_get cl ''priority'' (PStr ''medium'') = PStr raw
      \<and> lower raw \<in> {''high'', ''medium'', ''low''}
      \<longrightarrow> assign_priority c cl = Inr (lower raw))
   \<and> (py_num (dict_get cl ''confidence'' (PFloat 0)) = Some conf
      \<and> (conf < float_0_7 \<or> (dict_get cl ''priority'' (PStr ''medium'') = PStr raw
                               \<and> lower raw \<notin> {''high'', ''medium'', ''low''}))
      \<and> py_or (py_or (dict_get cl ''change_type'' PNone) (text_val (change_type c))) (PStr [])
          = PStr ty
      \<and> py_or (py_or (dict_get cl ''summary'' PNone) (text_val (summary c))) (PStr [])
          = PStr su
      \<and> py_or (py_or (dict_get cl ''why_it_matters'' PNone) (text_val (why_it_matters c)))
          (PStr []) = PStr why
      \<longrightarrow> assign_priority c cl = Inr
           (let combined = lower (ty @ '' '' @ su @ '' '' @ why);
                occurs = (\<lambda>keywords. \<exists>k \<in> set keywords. \<exists>pre post. combined = pre @ k @ post)
            in if occurs HIGH_PRIORITY_KEYWORDS \<and> \<not> occurs LOW_PRIORITY_KEYWORDS then ''high''
               else if occurs MEDIUM_PRIORITY_KEYWORDS then ''medium''
               else if occurs LOW_PRIORITY_KEYWORDS then ''low''
               else if lower ty \<in> {''pricing'', ''compliance''} then ''high''
               else if lower ty \<in> {''changelog'', ''news''} then ''medium''
               else ''low''))
   \<and> (py_num (dict_get cl ''confidence'' (PFloat 0)) = None
      \<longrightarrow> assign_priority c cl = Inl TypeError)
   \<and> (py_num (dict_get cl ''confidence'' (PFloat 0)) = Some conf \<and> float_0_7 \<le> conf
      \<and> (\<forall>x. dict_get cl ''priority'' (PStr ''medium'') \<noteq> PStr x)
      \<longrightarrow> assign_priority c cl = Inl AttributeError)
   \<and> (py_num (dict_get cl ''confidence'' (PFloat 0)) = Some conf
      \<and> (conf < float_0_7 \<or> (dict_get cl ''priority'' (PStr ''medium'') = PStr raw
                               \<and> lower raw \<notin> {''high'', ''medium'', ''low''}))
      \<and> ((\<forall>x. py_or (py_or (dict_get cl ''change_type'' PNone) (text_val (change_type c)))
                   (PStr []) \<noteq> PStr x)
         \<or> (\<forall>x. py_or (py_or (dict_get cl ''summary'' PNone) (text_val (summary c)))
                   (PStr []) \<noteq> PStr x)
         \<or> (\<forall>x. py_or (py_or (dict_get cl ''why_it_matters'' PNone)
                   (text_val (why_it_matters c))) (PStr []) \<noteq> PStr x))
      \<longrightarrow> assign_priority c cl = Inl AttributeError)
   \<and> float_0_7 = 3152519739159347 / 2 ^ 52 \<and> float_0_7 < 7 / 10
   \<and> 7 / 10 - float_0_7 < 1 / 2 ^ 54
   \<and> lower ''ABCDEFGHIJKLMNOPQRSTUVWXYZ'' = ''abcdefghijklmnopqrstuvwxyz''
   \<and> ((\<forall>ch \<in> set s. (of_char ch :: nat) < 128 \<and> ch \<notin> set ''ABCDEFGHIJKLMNOPQRSTUVWXYZ'')
        \<longrightarrow> lower s = s)
   \<and> lower (s @ t) = lower s @ lower t
   \<and> length (lower s) = length s"
proof -
  have a: "assign_priority c cl = Inr (lower raw)"
    if "py_num (dict_get cl ''confidence'' (PFloat 0)) = Some conf" "float_0_7 \<le> conf"
       "dict_get cl ''priority'' (PStr ''medium'') = PStr raw"
       "lower raw \<in> {''high'', ''medium'', ''low''}"
    using that by (rule assign_priority_trusted)
  have r: "assign_priority c cl = rule_based_priority c cl"
    if "py_num (dict_get cl ''confidence'' (PFloat 0)) = Some conf"
       "conf < float_0_7 \<or> (dict_get cl ''priority'' (PStr ''medium'') = PStr raw
                               \<and> lower raw \<notin> {''high'', ''medium'', ''low''})"
    using that by (rule assign_priority_recomputed)
  note tbl = rule_based_priority_table [where cl = cl and c = c and ty = ty and su = su and why = why]
  note bad = rule_based_priority_raises [where cl = cl and c = c]
  note err = assign_priority_no_number [where cl = cl and c = c]
    assign_priority_no_string [where cl = cl and c = c and conf = conf]
  note low = lower_alphabet lower_other [of s] lower_append [of s t] lower_length [of s]
  show ?thesis
    apply (intro conjI impI)
    subgoal using a by blast
    subgoal using r tbl by simp
    subgoal using err by blast
    subgoal using err by blast
    subgoal using r bad by simp
    subgoal using float_0_7_nearest by simp
    subgoal using float_0_7_nearest by simp
    subgoal using float_0_7_nearest by simp
    subgoal by (rule lower_alphabet)
    subgoal using low by blast
    subgoal by (rule lower_append)
    subgoal by (rule lower_length)
    done
qed


theorem assign_priority_selection_witness:
  "py_num (dict_get boundary_classification ''confidence'' (PFloat 0))
     = Some (3152519739159347 / 4503599627370496)
   \<and> float_0_7 \<le> 3152519739159347 / 4503599627370496
   \<and> \<not> (7 / 10 \<le> (3152519739159347 / 4503599627370496 :: rat))
   \<and> dict_get boundary_classification ''priority'' (PStr ''medium'') = PStr ''Low''
   \<and> assign_priority example_change boundary_classification = Inr ''low''
   \<and> rule_based_priority example_change boundary_classification = Inr ''high''
   \<and> py_num (dict_get keyword_classification ''confidence'' (PFloat 0)) = Some (1 / 2)
   \<and> dict_get keyword_classification ''summary'' PNone = PStr ''New PRICING Tier''
   \<and> assign_priority example_change keyword_classification = Inr ''high''
   \<and> assign_priority example_change context_classification = Inr ''low''
   \<and> dict_get bare_classification ''summary'' PNone = PNone
   \<and> assign_priority example_change bare_classification = Inr ''medium''"
proof -
  have b1: "py_num (dict_get boundary_classification ''confidence'' (PFloat 0))
              = Some (3152519739159347 / 4503599627370496)"
    by (simp add: boundary_classification_def dict_get_def)
  have b2: "float_0_7 \<le> 3152519739159347 / 4503599627370496"
    by (simp add: float_0_7_def)
  have b3: "\<not> (7 / 10 \<le> (3152519739159347 / 4503599627370496 :: rat))"
    by simp
  have b4: "dict_get boundary_classification ''priority'' (PStr ''medium'') = PStr ''Low''"
    by (simp add: boundary_classification_def dict_get_def)
  have b5: "lower ''Low'' = ''low''"
    by (simp add: lower_def lower_char_def)
  have "assign_priority example_change boundary_classification = Inr (lower ''Low'')"
    by (rule assign_priority_selection [where cl = boundary_classification
              and conf = "3152519739159347 / 4503599627370496" and raw = "''Low''"
              and c = example_change, THEN conjunct1, rule_format])
       (intro conjI, rule b1, rule b2, rule b4, simp add: b5)
  then have bnd: "assign_priority example_change boundary_classification = Inr ''low''"
    by (simp only: b5)
  have half: "(1 / 2 :: rat) < float_0_7" by (simp add: float_0_7_def)
  have k1: "py_num (dict_get keyword_classification ''confidence'' (PFloat 0)) = Some (1 / 2)"
    by (simp add: keyword_classification_def dict_get_def)
  have k2: "py_or (py_or (dict_get keyword_classification ''change_type'' PNone)
                     (text_val (change_type example_change))) (PStr []) = PStr ''other''"
       "py_or (py_or (dict_get keyword_classification ''summary'' PNone)
                     (text_val (summary example_change))) (PStr []) = PStr ''New PRICING Tier''"
       "py_or (py_or (dict_get keyword_classification ''why_it_matters'' PNone)
                     (text_val (why_it_matters example_change))) (PStr []) = PStr ''Costs More''"
    by (simp_all add: keyword_classification_def dict_get_def py_or_def)
  have k3: "dict_get keyword_classification ''summary'' PNone = PStr ''New PRICING Tier''"
    by (simp add: keyword_classification_def dict_get_def)
  have k4: "(let combined = lower (''other'' @ '' '' @ ''New PRICING Tier'' @ '' '' @ ''Costs More'');
                occurs = (\<lambda>keywords. \<exists>k \<in> set keywords. \<exists>pre post. combined = pre @ k @ post)
            in if occurs HIGH_PRIORITY_KEYWORDS \<and> \<not> occurs LOW_PRIORITY_KEYWORDS then ''high''
               else if occurs MEDIUM_PRIORITY_KEYWORDS then ''medium''
               else if occurs LOW_PRIORITY_KEYWORDS then ''low''
               else if lower ''other'' \<in> {''pricing'', ''compliance''} then ''high''
               else if lower ''other'' \<in> {''changelog'', ''news''} then ''medium''
               else ''low'') = ''high''"
    unfolding Let_def any_keyword_iff [symmetric]
    by (simp add: any_keyword_def starts_with_def lower_def lower_char_def keyword_tables)
  have "assign_priority example_change keyword_classification = Inr
           (let combined = lower (''other'' @ '' '' @ ''New PRICING Tier'' @ '' '' @ ''Costs More'');
                occurs = (\<lambda>keywords. \<exists>k \<in> set keywords. \<exists>pre post. combined = pre @ k @ post)
            in if occurs HIGH_PRIORITY_KEYWORDS \<and> \<not> occurs LOW_PRIORITY_KEYWORDS then ''high''
               else if occurs MEDIUM_PRIORITY_KEYWORDS then ''medium''
               else if occurs LOW_PRIORITY_KEYWORDS then ''low''
               else if lower ''other'' \<in> {''pricing'', ''compliance''} then ''high''
               else if lower ''other'' \<in> {''changelog'', ''news''} then ''medium''
               else ''low'')"
    by (rule assign_priority_selection [where cl = keyword_classification and conf = "1 / 2"
              and raw = "[]" and c = example_change and ty = "''other''" and su = "''New PRICING Tier''"
              and why = "''Costs More''", THEN conjunct2, THEN conjunct1, rule_format])
       (intro conjI disjI1; rule k1 k2 half)
  then have kw: "assign_priority example_change keyword_classification = Inr ''high''"
    by (simp only: k4)
  have c1: "py_num (dict_get context_classification ''confidence'' (PFloat 0)) = Some (1 / 2)"
    by (simp add: context_classification_def dict_get_def)
  have c2: "py_or (py_or (dict_get context_classification ''change_type'' PNone)
                     (text_val (change_type example_change))) (PStr []) = PStr ''pricing''"
       "py_or (py_or (dict_get context_classification ''summary'' PNone)
                     (text_val (summary example_change))) (PStr []) = PStr ''Blog Post''"
       "py_or (py_or (dict_get context_classification ''why_it_matters'' PNone)
                     (text_val (why_it_matters example_change))) (PStr []) = PStr ''Nothing''"
    by (simp_all add: context_classification_def dict_get_def py_or_def)
  have c4: "(let combined = lower (''pricing'' @ '' '' @ ''Blog Post'' @ '' '' @ ''Nothing'');
                occurs = (\<lambda>keywords. \<exists>k \<in> set keywords. \<exists>pre post. combined = pre @ k @ post)
            in if occurs HIGH_PRIORITY_KEYWORDS \<and> \<not> occurs LOW_PRIORITY_KEYWORDS then ''high''
               else if occurs MEDIUM_PRIORITY_KEYWORDS then ''medium''
               else if occurs LOW_PRIORITY_KEYWORDS then ''low''
               else if lower ''pricing'' \<in> {''pricing'', ''compliance''} then ''high''
               else if lower ''pricing'' \<in> {''changelog'', ''news''} then ''medium''
               else ''low'') = ''low''"
    unfolding Let_def any_keyword_iff [symmetric]
    by (simp add: any_keyword_def starts_with_def lower_def lower_char_def keyword_tables)
  have "assign_priority example_change context_classification = Inr
           (let combined = lower (''pricing'' @ '' '' @ ''Blog Post'' @ '' '' @ ''Nothing'');
                occurs = (\<lambda>keywords. \<exists>k \<in> set keywords. \<exists>pre post. combined = pre @ k @ post)
            in if occurs HIGH_PRIORITY_KEYWORDS \<and> \<not> occurs LOW_PRIORITY_KEYWORDS then ''high''
               else if occurs MEDIUM_PRIORITY_KEYWORDS then ''medium''
               else if occurs LOW_PRIORITY_KEYWORDS then ''low''
               else if lower ''pricing'' \<in> {''pricing'', ''compliance''} then ''high''
               else if lower ''pricing'' \<in> {''changelog'', ''news''} then ''medium''
               else ''low'')"
    by (rule assign_priority_selection [where cl = context_classification and conf = "1 / 2"
              and raw = "[]" and c = example_change and ty = "''pricing''" and su = "''Blog Post''"
              and why = "''Nothing''", THEN conjunct2, THEN conjunct1, rule_format])
       (intro conjI disjI1; rule c1 c2 half)
  then have ctx: "assign_priority example_change context_classification = Inr ''low''"
    by (simp only: c4)
  have e1: "py_num (dict_get bare_classification ''confidence'' (PFloat 0)) = Some (1 / 2)"
    by (simp add: bare_classification_def dict_get_def)
  have e2: "py_or (py_or (dict_get bare_classification ''change_type'' PNone)
                     (text_val (change_type example_change))) (PStr []) = PStr ''changelog''"
       "py_or (py_or (dict_get bare_classification ''summary'' PNone)
                     (text_val (summary example_change))) (PStr []) = PStr ''Notes updated''"
       "py_or (py_or (dict_get bare_classification ''why_it_matters'' PNone)
                     (text_val (why_it_matters example_change))) (PStr [])
          = PStr ''Two items shipped''"
    by (simp_all add: bare_classification_def example_change_def dict_get_def py_or_def
          text_val_def)
  have e3: "dict_get bare_classification ''summary'' PNone = PNone"
    by (simp add: bare_classification_def dict_get_def)
  have e4: "(let combined = lower (''changelog'' @ '' '' @ ''Notes updated'' @ '' ''
                              @ ''Two items shipped'');
                occurs = (\<lambda>keywords. \<exists>k \<in> set keywords. \<exists>pre post. combined = pre @ k @ post)
            in if occurs HIGH_PRIORITY_KEYWORDS \<and> \<not> occurs LOW_PRIORITY_KEYWORDS then ''high''
               else if occurs MEDIUM_PRIORITY_KEYWORDS then ''medium''
               else if occurs LOW_PRIORITY_KEYWORDS then ''low''
               else if lower ''changelog'' \<in> {''pricing'', ''compliance''} then ''high''
               else if lower ''changelog'' \<in> {''changelog'', ''news''} then ''medium''
               else ''low'') = ''medium''"
    unfolding Let_def any_keyword_iff [symmetric]
    by (simp add: any_keyword_def starts_with_def lower_def lower_char_def keyword_tables)
  have "assign_priority example_change bare_classification = Inr
           (let combined = lower (''changelog'' @ '' '' @ ''Notes updated'' @ '' '' @ ''Two items shipped'');
                occurs = (\<lambda>keywords. \<exists>k \<in> set keywords. \<exists>pre post. combined = pre @ k @ post)
            in if occurs HIGH_PRIORITY_KEYWORDS \<and> \<not> occurs LOW_PRIORITY_KEYWORDS then ''high''
               else if occurs MEDIUM_PRIORITY_KEYWORDS then ''medium''
               else if occurs LOW_PRIORITY_KEYWORDS then ''low''
               else if lower ''changelog'' \<in> {''pricing'', ''compliance''} then ''high''
               else if lower ''changelog'' \<in> {''changelog'', ''news''} then ''medium''
               else ''low'')"
    by (rule assign_priority_selection [where cl = bare_classification and conf = "1 / 2"
              and raw = "[]" and c = example_change and ty = "''changelog''" and su = "''Notes updated''"
              and why = "''Two items shipped''", THEN conjunct2, THEN conjunct1, rule_format])
       (intro conjI disjI1; rule e1 e2 half)
  then have bare: "assign_priority example_change bare_classification = Inr ''medium''"
    by (simp only: e4)
  show ?thesis
    using b1 b2 b3 b4 bnd boundary_rules k1 k3 kw ctx e3 bare by blast
qed

text \<open>
  The keyword tables are matched against lower-cased text as they stand: a keyword with a
  capital letter cannot occur in it.
\<close>

lemma capital_keyword_never_occurs:
  assumes "k \<in> {''SOC'', ''ISO'', ''GDPR'', ''HIPAA''}"
  shows "\<not> (\<exists>pre post. lower s = pre @ k @ post)"
proof
  assume "\<exists>pre post. lower s = pre @ k @ post"
  then obtain pre post where e: "lower s = pre @ k @ post" by blast
  have "hd k \<in> set ''ABCDEFGHIJKLMNOPQRSTUVWXYZ'' \<and> hd k \<in> set k" using assms by auto
  then have "\<exists>ch \<in> set (lower s). ch \<in> set ''ABCDEFGHIJKLMNOPQRSTUVWXYZ''"
    unfolding e by auto
  then show False using lower_char_not_upper by (auto simp add: lower_def)
qed

subsection \<open>Change detector\<close>

lemma first_where_Some: "first_where P rows = Some r \<Longrightarrow> P r \<and> r \<in> set rows"
  by (induction rows) (auto simp: first_where_def split: if_splits list.splits)

lemma first_where_None: "first_where P rows = None \<longleftrightarrow> (\<forall>r \<in> set rows. \<not> P r)"
  by (induction rows) (auto simp: first_where_def split: if_splits list.splits)

lemma create_change_record_result:
  assumes "create_change_record d a sb sa cd sem s = Inr (c, s')"
  shows "s' = s\<lparr>changes := changes s @ [c]\<rparr> \<and> snapshot_after_id c = snap_id sa
     \<and> snapshot_before_id c = snap_id sb \<and> change_asset_id c = asset_id a
     \<and> alert_sent c = False \<and> priority c = None"
  using assms unfolding create_change_record_def Let_def then_do_def
  by (auto split: sum.splits if_splits prod.splits)


lemma detect_result:
  assumes "detect_changes_for_asset d a s = Inr (cs, s')"
  shows "(cs = [] \<and> s' = s)
     \<or> (\<exists>c sa sb rest. latest_snapshots s (asset_id a) = sa # sb # rest
           \<and> first_where (\<lambda>c. snapshot_after_id c = snap_id sa) (changes s) = None
           \<and> cs = [c] \<and> s' = s\<lparr>changes := changes s @ [c]\<rparr>
           \<and> snapshot_after_id c = snap_id sa \<and> change_asset_id c = asset_id a)"
proof (cases "first_where (\<lambda>r. asset_id r = asset_id a) (assets s)")
  case None
  then show ?thesis using assms by (simp add: detect_changes_for_asset_def)
next
  case (Some a')
  then have id: "asset_id a' = asset_id a" using first_where_Some by fastforce
  show ?thesis
  proof (cases "\<exists>sa sb rest. latest_snapshots s (asset_id a) = sa # sb # rest")
    case False
    then have "detect_changes_for_asset d a s = Inr ([], s)"
      using Some id by (auto simp add: detect_changes_for_asset_def split: list.splits)
    then show ?thesis using assms by simp
  next
    case True
    then obtain sa sb rest where ls: "latest_snapshots s (asset_id a) = sa # sb # rest" by blast
    show ?thesis
    proof (cases "first_where (\<lambda>c. snapshot_after_id c = snap_id sa) (changes s)")
      case (Some existing)
      then have "detect_changes_for_asset d a s = Inr ([], s)"
        using \<open>first_where (\<lambda>r. asset_id r = asset_id a) (assets s) = Some a'\<close> id ls
        by (simp add: detect_changes_for_asset_def)
      then show ?thesis using assms by simp
    next
      case None
      from assms show ?thesis
        unfolding detect_changes_for_asset_def Let_def
        using \<open>first_where (\<lambda>r. asset_id r = asset_id a) (assets s) = Some a'\<close> id ls None
        by (auto simp add: then_do_def
              split: option.splits sum.splits if_splits bool.splits prod.splits
              dest!: create_change_record_result)
    qed
  qed
qed


lemma detect_existing:
  assumes ls: "latest_snapshots s (asset_id a) = sa # rest"
    and ex: "\<exists>c \<in> set (changes s). snapshot_after_id c = snap_id sa"
  shows "detect_changes_for_asset d a s = Inr ([], s)"
proof (cases "first_where (\<lambda>r. asset_id r = asset_id a) (assets s)")
  case None
  then show ?thesis by (simp add: detect_changes_for_asset_def)
next
  case (Some a')
  then have id: "asset_id a' = asset_id a" using first_where_Some by fastforce
  from ex have "first_where (\<lambda>c. snapshot_after_id c = snap_id sa) (changes s) \<noteq> None"
    by (simp add: first_where_None)
  then obtain e where e: "first_where (\<lambda>c. snapshot_after_id c = snap_id sa) (changes s) = Some e"
    by blast
  show ?thesis using Some id ls e
    by (cases rest) (simp_all add: detect_changes_for_asset_def)
qed

lemma latest_snapshots_changes:
  "latest_snapshots (s\<lparr>changes := cs\<rparr>) aid = latest_snapshots s aid"
  by (simp add: latest_snapshots_def)

lemma latest_example:
  "latest_snapshots store_before (asset_id example_asset) = [snapshot_v2, snapshot_v1]"
  by (simp add: latest_snapshots_def store_before_def example_asset_def snapshot_v1_def
        snapshot_v2_def)

lemma compare_example:
  "compare_snapshots example_lib ''pricing'' snapshot_v1 snapshot_v2 = Inr (Some example_evidence)"
  by (simp add: compare_snapshots_def snapshot_v1_def snapshot_v2_def example_lib_def
        has_text_def text_val_def calculate_change_percentage_def Let_def example_evidence_def)

lemma significant_example: "is_significant_change example_evidence default_threshold = Inr True"
  by (simp add: is_significant_change_def example_evidence_def dict_get_def)

lemma analysis_example:
  "analyze_change failing_llm ''Plan A: $10/mo'' ''Plan A: $15/mo'' ''pricing'' ''u''
     = degraded_analysis"
  by (simp add: analyze_change_def failing_llm_def degraded_analysis_def)

lemma noise_example: "filter_noise example_evidence degraded_analysis = Inr False"
  by (simp add: filter_noise_def degraded_analysis_def py_get_def dict_get_def py_lower_def
        lower_def lower_char_def Let_def)

lemma create_example:
  "create_change_record example_detector example_asset snapshot_v1 snapshot_v2
     example_evidence degraded_analysis store_before = Inr (detected_change, store_after)"
  by (simp add: create_change_record_def degraded_analysis_def py_get_def dict_get_def
        example_evidence_def example_detector_def text_column_def next_id_def
        detected_change_def store_after_def store_before_def example_asset_def py_or_def
        snapshot_v1_def snapshot_v2_def Let_def)

lemma first_run:
  "detect_changes_for_asset example_detector example_asset store_before
     = Inr ([detected_change], store_after)"
proof -
  have a: "first_where (\<lambda>r. asset_id r = asset_id example_asset) (assets store_before)
             = Some example_asset"
    by (simp add: first_where_def store_before_def)
  have e: "first_where (\<lambda>c. snapshot_after_id c = snap_id snapshot_v2) (changes store_before)
             = None"
    by (simp add: first_where_def store_before_def)
  have c: "compare_snapshots (diff_engine example_detector) (asset_type example_asset)
             snapshot_v1 snapshot_v2 = Inr (Some example_evidence)"
    using compare_example by (simp add: example_detector_def example_asset_def)
  have ne: "example_evidence \<noteq> []" by (simp add: example_evidence_def)
  have t: "content_text snapshot_v1 = Some ''Plan A: $10/mo''"
          "content_text snapshot_v2 = Some ''Plan A: $15/mo''"
    by (simp_all add: snapshot_v1_def snapshot_v2_def)
  have l: "has_llm example_detector" "semantic_diff example_detector = failing_llm"
    by (simp_all add: example_detector_def)
  have u: "asset_type example_asset = ''pricing''" "url example_asset = ''u''"
    by (simp_all add: example_asset_def)
  have an: "analyze_change failing_llm ''Plan A: $10/mo'' ''Plan A: $15/mo''
              (asset_type example_asset) (url example_asset) = degraded_analysis"
    using analysis_example by (simp add: u)
  show ?thesis
    unfolding detect_changes_for_asset_def
    by (simp add: a latest_example e c ne significant_example t l an noise_example
          create_example)
qed

text \<open>
  Claim C1. If a change already points to the most recent snapshot of the asset as its
  "after" snapshot, \<^verbatim>\<open>detect_changes_for_asset\<close> returns the empty list and leaves the
  store as it is. A run that returns creates at most one change, appended to the table;
  it keeps the "after" pointers of the changes pairwise distinct (at most one change per
  "after" snapshot); a second run on the resulting store returns the empty list and
  changes nothing, and after a run that created a change this holds whatever the
  external services answer the second time.
\<close>

theorem detection_idempotent:
  "(latest_snapshots s (asset_id a) = sa # rest
      \<and> (\<exists>c \<in> set (changes s). snapshot_after_id c = snap_id sa)
      \<longrightarrow> detect_changes_for_asset d a s = Inr ([], s))
   \<and> (detect_changes_for_asset d a s = Inr (cs, s') \<longrightarrow>
        length cs \<le> 1 \<and> changes s' = changes s @ cs
        \<and> (distinct (map snapshot_after_id (changes s))
             \<longrightarrow> distinct (map snapshot_after_id (changes s')))
        \<and> detect_changes_for_asset d a s' = Inr ([], s')
        \<and> (cs \<noteq> [] \<longrightarrow> (\<forall>d'. detect_changes_for_asset d' a s' = Inr ([], s'))))"
proof -
  have second: "length cs \<le> 1 \<and> changes s' = changes s @ cs
        \<and> (distinct (map snapshot_after_id (changes s))
             \<longrightarrow> distinct (map snapshot_after_id (changes s')))
        \<and> detect_changes_for_asset d a s' = Inr ([], s')
        \<and> (cs \<noteq> [] \<longrightarrow> (\<forall>d'. detect_changes_for_asset d' a s' = Inr ([], s')))"
    if run: "detect_changes_for_asset d a s = Inr (cs, s')"
  proof -
    from detect_result [OF run] consider
        (none) "cs = []" "s' = s"
      | (new) c sa sb rest where "latest_snapshots s (asset_id a) = sa # sb # rest"
          "first_where (\<lambda>c. snapshot_after_id c = snap_id sa) (changes s) = None"
          "cs = [c]" "s' = s\<lparr>changes := changes s @ [c]\<rparr>"
          "snapshot_after_id c = snap_id sa"
      by blast
    then show ?thesis
    proof cases
      case none
      then show ?thesis using run by simp
    next
      case new
      have fresh: "snap_id sa \<notin> set (map snapshot_after_id (changes s))"
        using new(2) by (auto simp add: first_where_None)
      have ls': "latest_snapshots s' (asset_id a) = sa # sb # rest"
        using new(1,4) by (simp add: latest_snapshots_changes)
      have ex': "\<exists>x \<in> set (changes s'). snapshot_after_id x = snap_id sa"
        using new(4,5) by simp
      have again: "\<forall>d'. detect_changes_for_asset d' a s' = Inr ([], s')"
        using detect_existing [OF ls' ex'] by simp
      show ?thesis using new(3,4,5) fresh again by simp
    qed
  qed
  show ?thesis using detect_existing [of s a sa rest d] second by blast
qed

theorem detection_idempotent_witness:
  "detect_changes_for_asset example_detector example_asset store_before
     = Inr ([detected_change], store_after)
   \<and> distinct (map snapshot_after_id (changes store_before))
   \<and> distinct (map snapshot_after_id (changes store_after))
   \<and> latest_snapshots store_after (asset_id example_asset) = [snapshot_v2, snapshot_v1]
   \<and> (\<exists>c \<in> set (changes store_after). snapshot_after_id c = snap_id snapshot_v2)
   \<and> detect_changes_for_asset example_detector example_asset store_after
       = Inr ([], store_after)"
proof -
  have l: "latest_snapshots store_after (asset_id example_asset) = [snapshot_v2, snapshot_v1]"
    using latest_example by (simp add: store_after_def latest_snapshots_changes)
  have e: "\<exists>c \<in> set (changes store_after). snapshot_after_id c = snap_id snapshot_v2"
    by (simp add: store_after_def detected_change_def snapshot_v2_def)
  have d: "distinct (map snapshot_after_id (changes store_before))"
    by (simp add: store_before_def)
  note first = detection_idempotent [where s = store_before and a = example_asset
        and d = example_detector and cs = "[detected_change]" and s' = store_after
        and sa = snapshot_v2 and rest = "[snapshot_v1]", THEN conjunct2, rule_format, OF first_run]
  note second = detection_idempotent [where s = store_after and a = example_asset
        and d = example_detector and sa = snapshot_v2 and rest = "[snapshot_v1]"
        and cs = "[]" and s' = store_after, THEN conjunct1, rule_format, OF conjI, OF l e]
  have d': "distinct (map snapshot_after_id (changes store_after))"
    using first d by blast
  show ?thesis using first_run d d' l e second by blast
qed

subsection \<open>Alert manager\<close>

text \<open>
  Every object a sweep receives from \<^verbatim>\<open>get_pending_alerts\<close> has left its session, and so
  have the three objects \<^verbatim>\<open>send_immediate_alert\<close> loads by the time it builds its message:
  the first attribute read raises, before anything is handed to the webhook.
\<close>

lemma pending_expired: "obj \<in> set (get_pending_alerts s prio since) \<Longrightarrow> obj = Expired"
  by (auto simp add: get_pending_alerts_def session_exit_def)

lemma digest_entries_expired:
  "objs \<noteq> [] \<Longrightarrow> \<forall>obj \<in> set objs. obj = Expired
     \<Longrightarrow> digest_entries s objs = Inl DetachedInstanceError"
  by (cases objs) (simp_all add: digest_entry_def attr_def)

lemma send_sweep_outcome:
  "send_sweep am tier lookback title dtype sys = (Inr (), sys)
   \<or> send_sweep am tier lookback title dtype sys = (Inl DetachedInstanceError, sys)"
proof -
  let ?pending = "get_pending_alerts (db sys) (Some tier) (Some (clock am - lookback))"
  show ?thesis
  proof (cases "\<not> has_slack am \<or> ?pending = []")
    case True
    then show ?thesis by (auto simp add: send_sweep_def Let_def)
  next
    case False
    then have "digest_entries (db sys) ?pending = Inl DetachedInstanceError"
      using digest_entries_expired pending_expired by blast
    then show ?thesis using False by (simp add: send_sweep_def Let_def)
  qed
qed

lemma send_immediate_alert_outcome:
  "send_immediate_alert am given sys = (Inr False, sys)
   \<or> send_immediate_alert am given sys = (Inl AttributeError, sys)
   \<or> send_immediate_alert am given sys = (Inl DetachedInstanceError, sys)"
  unfolding send_immediate_alert_def Let_def
  by (cases given)
     (simp_all add: attr_def session_exit_def split: option.split)

lemma pending_none:
  "\<forall>c \<in> set (changes s). alert_sent c \<Longrightarrow> get_pending_alerts s prio since = []"
  by (simp add: get_pending_alerts_def filter_empty_conv)

lemma send_sweep_nothing_pending:
  "\<forall>c \<in> set (changes (db sys)). alert_sent c
     \<Longrightarrow> send_sweep am tier lookback title dtype sys = (Inr (), sys)"
  by (simp add: send_sweep_def Let_def pending_none)

text \<open>
  Claim C2. Re-invoking the immediate path or a sweep transmits nothing, appends no
  alert record and leaves every change as it is, for a change that has been delivered as
  for any other: the call leaves the system (the store and the notification sink) exactly
  as it found it, and the immediate path never reports a delivery. The sweeps select
  pending changes by the sent flag: over a store whose changes are all marked as sent
  they collect nothing and return normally. \<^verbatim>\<open>send_immediate_alert\<close> does not test the
  flag; it ends with \<^verbatim>\<open>DetachedInstanceError\<close> (or earlier, with \<^verbatim>\<open>False\<close> or
  \<^verbatim>\<open>AttributeError\<close>) before the transmission.
\<close>

theorem sent_change_not_redelivered:
  "snd (send_immediate_alert am given sys) = sys
   \<and> fst (send_immediate_alert am given sys) \<noteq> Inr True
   \<and> snd (send_daily_digest am sys) = sys
   \<and> snd (send_weekly_summary am sys) = sys
   \<and> ((\<forall>c \<in> set (changes (db sys)). alert_sent c) \<longrightarrow>
        send_daily_digest am sys = (Inr (), sys) \<and> send_weekly_summary am sys = (Inr (), sys))"
proof -
  have a: "snd (send_immediate_alert am given sys) = sys
           \<and> fst (send_immediate_alert am given sys) \<noteq> Inr True"
    using send_immediate_alert_outcome [of am given sys] by auto
  have b: "snd (send_sweep am tier lookback title dtype sys) = sys" for tier lookback title dtype
    using send_sweep_outcome [of am tier lookback title dtype sys] by auto
  have c: "send_sweep am tier lookback title dtype sys = (Inr (), sys)"
    if "\<forall>c \<in> set (changes (db sys)). alert_sent c" for tier lookback title dtype
    using that by (rule send_sweep_nothing_pending)
  show ?thesis using a b c by (simp add: send_daily_digest_def send_weekly_summary_def)
qed

theorem sent_change_not_redelivered_witness:
  "alert_sent sent_change \<and> changes (db sent_system) = [sent_change]
   \<and> send_immediate_alert working_slack (Attached sent_change) sent_system
       = (Inl DetachedInstanceError, sent_system)
   \<and> send_immediate_alert working_slack Expired sent_system
       = (Inl DetachedInstanceError, sent_system)
   \<and> send_daily_digest working_slack sent_system = (Inr (), sent_system)
   \<and> send_weekly_summary working_slack sent_system = (Inr (), sent_system)
   \<and> get_pending_alerts (db mixed_system) (Some ''medium'') None = [Expired]
   \<and> send_daily_digest working_slack mixed_system = (Inl DetachedInstanceError, mixed_system)"
proof -
  have a: "send_immediate_alert working_slack (Attached sent_change) sent_system
             = (Inl DetachedInstanceError, sent_system)"
    by (simp add: send_immediate_alert_def working_slack_def sent_change_def sent_system_def
          detected_change_def store_before_def example_asset_def first_where_def attr_def
          session_exit_def Let_def)
  have b: "send_immediate_alert working_slack Expired sent_system
             = (Inl DetachedInstanceError, sent_system)"
    by (simp add: send_immediate_alert_def working_slack_def attr_def)
  have c: "alert_sent sent_change \<and> changes (db sent_system) = [sent_change]"
    by (simp add: sent_change_def sent_system_def)
  have d: "\<forall>c \<in> set (changes (db sent_system)). alert_sent c"
    using c by simp
  have e: "get_pending_alerts (db mixed_system) (Some ''medium'') None = [Expired]"
    by (simp add: get_pending_alerts_def mixed_system_def sent_change_def pending_change_def
          detected_change_def store_before_def example_asset_def session_exit_def has_text_def
          text_val_def)
  have "fst (send_daily_digest working_slack mixed_system) = Inl DetachedInstanceError"
    by (simp add: send_daily_digest_def send_sweep_def get_pending_alerts_def mixed_system_def
          sent_change_def pending_change_def detected_change_def store_before_def
          example_asset_def session_exit_def has_text_def text_val_def working_slack_def
          microseconds_per_day_def digest_entry_def attr_def Let_def)
  moreover have "snd (send_daily_digest working_slack mixed_system) = mixed_system"
    using sent_change_not_redelivered [of working_slack Expired mixed_system] by blast
  ultimately have f: "send_daily_digest working_slack mixed_system
                        = (Inl DetachedInstanceError, mixed_system)"
    by (simp add: prod_eq_iff)
  show ?thesis
    using a b c d e f
      sent_change_not_redelivered [of working_slack "Attached sent_change" sent_system]
    by simp
qed

end
